theory Spec2Isabelle
  imports Complex_Main "HOL-Library.Word" "HOL-Library.Signed_Division"
begin

chapter \<open>Amigo Perto firmware: model of the HAL and GATT modules\<close>

text \<open>
  The firmware is a set of C modules with file-local state. Each module's static
  variables become one record, each C function becomes a HOL function that takes the
  record and returns the updated one, and every answer of an external collaborator
  (ADC driver, PWM driver, Bluetooth stack) is an explicit argument of the function
  that asks for it. Fixed-width C integers are machine words at the interfaces;
  \<open>int32_t\<close> intermediates are mathematical integers where the values provably stay
  inside the 32-bit range.
\<close>

section \<open>Battery gauge: \<open>src/hal/battery.c\<close>\<close>

subsection \<open>Types of \<open>include/hal/battery.h\<close>\<close>

datatype hal_battery_error_t =
    HAL_BATTERY_SUCCESS
  | HAL_BATTERY_ERROR_INIT
  | HAL_BATTERY_ERROR_READ
  | HAL_BATTERY_ERROR_STATE

datatype hal_battery_state_t =
    HAL_BATTERY_STATE_CRITICAL
  | HAL_BATTERY_STATE_LOW
  | HAL_BATTERY_STATE_MEDIUM
  | HAL_BATTERY_STATE_GOOD
  | HAL_BATTERY_STATE_UNKNOWN

text \<open>
  The fields of \<open>hal_battery_info_t\<close> carry the prefix \<open>info_\<close>: the C names
  \<open>voltage_mv\<close>, \<open>percentage\<close> and \<open>state\<close> are also parameter names.
\<close>

record hal_battery_info_t =
  info_voltage_mv :: "16 word"
  info_percentage :: "8 word"
  info_state :: hal_battery_state_t

subsection \<open>Constants\<close>

abbreviation (input) BATTERY_VOLTAGE_MAX_MV :: int where "BATTERY_VOLTAGE_MAX_MV \<equiv> 3000"
abbreviation (input) BATTERY_VOLTAGE_GOOD_MV :: int where "BATTERY_VOLTAGE_GOOD_MV \<equiv> 2800"
abbreviation (input) BATTERY_VOLTAGE_LOW_MV :: int where "BATTERY_VOLTAGE_LOW_MV \<equiv> 2500"
abbreviation (input) BATTERY_VOLTAGE_CRIT_MV :: int where "BATTERY_VOLTAGE_CRIT_MV \<equiv> 2200"
abbreviation (input) BATTERY_VOLTAGE_MIN_MV :: int where "BATTERY_VOLTAGE_MIN_MV \<equiv> 2000"

subsection \<open>Percentage and state\<close>

text \<open>
  \<open>linear_interpolate\<close> works on \<open>int32_t\<close>. C's \<open>/\<close> truncates towards zero, which
  is \<open>sdiv\<close>. The only caller passes a 16-bit voltage and the constant breakpoints,
  so the product stays far below \<open>2 ^ 31\<close> (lemma \<open>linear_interpolate_fits_int32\<close>).
\<close>

definition linear_interpolate :: "int \<Rightarrow> int \<Rightarrow> int \<Rightarrow> int \<Rightarrow> int \<Rightarrow> int" where
  "linear_interpolate x x0 y0 x1 y1 =
     (if x \<le> x0 then y0
      else if x \<ge> x1 then y1
      else y0 + ((x - x0) * (y1 - y0)) sdiv (x1 - x0))"

definition hal_battery_voltage_to_percentage :: "16 word \<Rightarrow> 8 word" where
  "hal_battery_voltage_to_percentage voltage_mv =
     (let v = uint voltage_mv;
          percentage =
            (if v \<ge> BATTERY_VOLTAGE_MAX_MV then 100
             else if v \<ge> BATTERY_VOLTAGE_GOOD_MV then
               linear_interpolate v BATTERY_VOLTAGE_GOOD_MV 70 BATTERY_VOLTAGE_MAX_MV 100
             else if v \<ge> BATTERY_VOLTAGE_LOW_MV then
               linear_interpolate v BATTERY_VOLTAGE_LOW_MV 30 BATTERY_VOLTAGE_GOOD_MV 70
             else if v \<ge> BATTERY_VOLTAGE_CRIT_MV then
               linear_interpolate v BATTERY_VOLTAGE_CRIT_MV 10 BATTERY_VOLTAGE_LOW_MV 30
             else if v \<ge> BATTERY_VOLTAGE_MIN_MV then
               linear_interpolate v BATTERY_VOLTAGE_MIN_MV 0 BATTERY_VOLTAGE_CRIT_MV 10
             else 0);
          percentage = (if percentage > 100 then 100 else percentage);
          percentage = (if percentage < 0 then 0 else percentage)
      in word_of_int percentage)"

definition hal_battery_percentage_to_state :: "8 word \<Rightarrow> hal_battery_state_t" where
  "hal_battery_percentage_to_state percentage =
     (if percentage > 70 then HAL_BATTERY_STATE_GOOD
      else if percentage > 30 then HAL_BATTERY_STATE_MEDIUM
      else if percentage > 10 then HAL_BATTERY_STATE_LOW
      else HAL_BATTERY_STATE_CRITICAL)"

subsection \<open>The percentage mapping as the specification words it\<close>

text \<open>
  The specification gives a table of breakpoints and the rule between two neighbours,
  \<open>y = y0 + (x - x0)(y1 - y0)/(x1 - x0)\<close> with integer truncation, 0 below the first
  breakpoint, 100 above the last, clamped to \<open>[0, 100]\<close>. \<open>interpolate_breakpoints\<close>
  walks any such table from the left; \<open>spec_percentage\<close> applies it to the table of
  the specification.
\<close>

fun interpolate_breakpoints :: "(int \<times> int) list \<Rightarrow> int \<Rightarrow> int option" where
  "interpolate_breakpoints ((x0, y0) # (x1, y1) # rest) x =
     (if x0 \<le> x \<and> x \<le> x1 then Some (y0 + ((x - x0) * (y1 - y0)) sdiv (x1 - x0))
      else interpolate_breakpoints ((x1, y1) # rest) x)"
| "interpolate_breakpoints _ x = None"

definition spec_breakpoints :: "(int \<times> int) list" where
  "spec_breakpoints = [(2000, 0), (2200, 10), (2500, 30), (2800, 70), (3000, 100)]"

definition spec_percentage :: "int \<Rightarrow> int" where
  "spec_percentage x =
     (if x < 2000 then 0
      else if x > 3000 then 100
      else case interpolate_breakpoints spec_breakpoints x of
             Some y \<Rightarrow> max 0 (min 100 y)
           | None \<Rightarrow> 0)"

subsection \<open>Sampling: \<open>adc_raw_to_mv\<close>, \<open>adc_read_with_oversampling\<close> and the readers\<close>

abbreviation (input) ADC_RESOLUTION :: nat where "ADC_RESOLUTION \<equiv> 12"
abbreviation (input) ADC_VREF_MV :: "32 word" where "ADC_VREF_MV \<equiv> 3600"
abbreviation (input) ADC_SAMPLES :: nat where "ADC_SAMPLES \<equiv> 4"

datatype errno = EIO | ENOTCONN | EACCES

text \<open>
  One call of the driver's \<open>adc_read\<close>: its return code and the content of
  \<open>adc_sample_buffer[0]\<close> after the call (an \<open>int16_t\<close>).
\<close>

type_synonym adc_read_outcome = "int \<times> 16 word"

text \<open>
  \<open>adc_raw_to_mv\<close> computes in \<open>uint32_t\<close>: the \<open>int16_t\<close> argument is sign-extended,
  the product wraps modulo \<open>2 ^ 32\<close>, the division is unsigned. The quotient is below
  \<open>2 ^ 32 / 4095 < 2 ^ 24\<close>, so the conversion to \<open>float\<close> is exact and the product
  with \<open>BATTERY_DIVIDER_RATIO = 1.0f\<close> followed by the conversion back to \<open>uint32_t\<close>
  returns the same integer: the third binding below is that step.
\<close>

definition adc_raw_to_mv :: "16 word \<Rightarrow> 16 word" where
  "adc_raw_to_mv adc_value =
     (let adc_max = (push_bit ADC_RESOLUTION 1 - 1 :: 32 word);
          voltage_mv = ((scast adc_value :: 32 word) * ADC_VREF_MV) div adc_max;
          voltage_mv = voltage_mv
      in ucast voltage_mv)"

text \<open>
  The body of the sampling loop, over the outcomes of the successive \<open>adc_read\<close> calls;
  the accumulator is \<open>(sum, valid_samples)\<close>, an \<open>int32_t\<close> and a \<open>uint8_t\<close>
  (\<open>sum\<close> is written \<open>sum_raw\<close>).
\<close>

fun oversampling_loop :: "adc_read_outcome list \<Rightarrow> 32 word \<times> 8 word \<Rightarrow> 32 word \<times> 8 word" where
  "oversampling_loop [] acc = acc"
| "oversampling_loop ((ret, raw_value) # rest) (sum_raw, valid_samples) =
     (if ret < 0 then oversampling_loop rest (sum_raw, valid_samples)
      else if 0 \<le> sint raw_value \<and> sint raw_value < 2 ^ ADC_RESOLUTION
        then oversampling_loop rest (sum_raw + scast raw_value, valid_samples + 1)
      else oversampling_loop rest (sum_raw, valid_samples))"

text \<open>
  \<open>reads\<close> lists what the driver answers to the \<open>ADC_SAMPLES\<close> calls of the loop, in
  order. \<open>sum / valid_samples\<close> (here \<open>sum_raw\<close>) is a signed \<open>int\<close> division, stored into an \<open>int16_t\<close>.
\<close>

definition adc_read_with_oversampling :: "adc_read_outcome list \<Rightarrow> errno + 16 word" where
  "adc_read_with_oversampling reads =
     (let (sum_raw, valid_samples) = oversampling_loop (take ADC_SAMPLES reads) (0, 0)
      in if valid_samples = 0 then Inl EIO
         else let avg_raw = (word_of_int (sint sum_raw sdiv uint valid_samples) :: 16 word)
              in Inr (adc_raw_to_mv avg_raw))"

record hal_battery =
  initialized_battery :: bool
  last_reading :: hal_battery_info_t

definition battery_power_on :: hal_battery where
  "battery_power_on =
     \<lparr>initialized_battery = False,
      last_reading = \<lparr>info_voltage_mv = 0, info_percentage = 0,
                      info_state = HAL_BATTERY_STATE_UNKNOWN\<rparr>\<rparr>"

text \<open>
  The first argument of the two readers says whether the caller's result pointer is
  non-NULL. \<open>Inr\<close> carries what the function stores through that pointer when it
  returns \<open>HAL_BATTERY_SUCCESS\<close>.
\<close>

definition hal_battery_read_voltage ::
    "bool \<Rightarrow> adc_read_outcome list \<Rightarrow> hal_battery \<Rightarrow> hal_battery_error_t + 16 word" where
  "hal_battery_read_voltage voltage_mv_given reads s =
     (if \<not> initialized_battery s then Inl HAL_BATTERY_ERROR_STATE
      else if \<not> voltage_mv_given then Inl HAL_BATTERY_ERROR_READ
      else case adc_read_with_oversampling reads of
             Inl e \<Rightarrow> Inl HAL_BATTERY_ERROR_READ
           | Inr voltage_mv \<Rightarrow> Inr voltage_mv)"

definition hal_battery_get_info ::
    "bool \<Rightarrow> adc_read_outcome list \<Rightarrow> hal_battery
      \<Rightarrow> (hal_battery_error_t + hal_battery_info_t) \<times> hal_battery" where
  "hal_battery_get_info info_given reads s =
     (if \<not> initialized_battery s then (Inl HAL_BATTERY_ERROR_STATE, s)
      else if \<not> info_given then (Inl HAL_BATTERY_ERROR_READ, s)
      else case hal_battery_read_voltage True reads s of
             Inl ret \<Rightarrow> (Inl ret, s)
           | Inr voltage_mv \<Rightarrow>
               let percentage = hal_battery_voltage_to_percentage voltage_mv;
                   state = hal_battery_percentage_to_state percentage;
                   info = \<lparr>info_voltage_mv = voltage_mv, info_percentage = percentage,
                           info_state = state\<rparr>
               in (Inr info, s\<lparr>last_reading := info\<rparr>))"

subsection \<open>The reading as the specification words it\<close>

text \<open>
  The specification: take the samples, discard those outside \<open>[0, 2 ^ resolution - 1]\<close>
  (and those whose acquisition failed), fail with ReadError if none remains, otherwise
  average the valid samples and convert with
  \<open>voltage_mv = round (avg_raw * V_ref / (2 ^ resolution - 1)) * divider_ratio\<close>,
  where \<open>V_ref = 3600\<close>, \<open>resolution = 12\<close> and \<open>divider_ratio = 1\<close>.
\<close>

definition sample_valid :: "adc_read_outcome \<Rightarrow> bool" where
  "sample_valid r = (0 \<le> fst r \<and> 0 \<le> sint (snd r) \<and> sint (snd r) \<le> 2 ^ 12 - 1)"

definition valid_samples_of :: "adc_read_outcome list \<Rightarrow> int list" where
  "valid_samples_of reads = map (\<lambda>r. sint (snd r)) (filter sample_valid reads)"

definition average_raw :: "int list \<Rightarrow> int" where
  "average_raw xs = sum_list xs div int (length xs)"

definition spec_voltage_mv :: "int \<Rightarrow> int" where
  "spec_voltage_mv avg_raw = round (real_of_int avg_raw * 3600 / (2 ^ 12 - 1)) * 1"

definition spec_reading :: "adc_read_outcome list \<Rightarrow> hal_battery_error_t + 16 word" where
  "spec_reading reads =
     (if valid_samples_of reads = [] then Inl HAL_BATTERY_ERROR_READ
      else Inr (word_of_int (spec_voltage_mv (average_raw (valid_samples_of reads)))))"

text \<open>The conversion the C code performs, on the integers: the quotient is truncated.\<close>

definition truncated_voltage_mv :: "int \<Rightarrow> int" where
  "truncated_voltage_mv avg_raw = avg_raw * 3600 div (2 ^ 12 - 1)"

definition battery_ready :: hal_battery where
  "battery_ready = battery_power_on\<lparr>initialized_battery := True\<rparr>"

subsection \<open>Auxiliary functions for the proofs\<close>

text \<open>The percentage as one closed formula on the integers.\<close>

definition percentage_int :: "int \<Rightarrow> int" where
  "percentage_int x =
     (if x < 2000 then 0
      else if x < 2200 then (x - 2000) * 10 div 200
      else if x < 2500 then 10 + (x - 2200) * 20 div 300
      else if x < 2800 then 30 + (x - 2500) * 40 div 300
      else if x < 3000 then 70 + (x - 2800) * 30 div 200
      else 100)"

text \<open>What one segment has contributed to the percentage once the voltage is \<open>x\<close>.\<close>

definition segment_rise :: "int \<Rightarrow> int \<Rightarrow> int \<Rightarrow> int \<Rightarrow> int" where
  "segment_rise x0 x1 dy x = (max x0 (min x1 x) - x0) * dy div (x1 - x0)"


section \<open>Kernel work items\<close>

text \<open>
  The deferred-work scheduler is a collaborator; only the state of the firmware's two
  work items is modelled. A delayable work item is idle or scheduled with a delay in
  milliseconds. \<open>k_work_schedule\<close> arms an idle item and does nothing to one that is
  already scheduled; \<open>k_work_cancel_delayable\<close> makes the item idle. When the delay has
  passed the kernel marks the item idle and runs its handler.
\<close>

datatype k_work_delayable = WORK_IDLE | WORK_SCHEDULED nat

definition k_work_schedule :: "k_work_delayable \<Rightarrow> nat \<Rightarrow> k_work_delayable" where
  "k_work_schedule work delay_ms =
     (case work of WORK_IDLE \<Rightarrow> WORK_SCHEDULED delay_ms | WORK_SCHEDULED d \<Rightarrow> WORK_SCHEDULED d)"

definition k_work_cancel_delayable :: "k_work_delayable \<Rightarrow> k_work_delayable" where
  "k_work_cancel_delayable work = WORK_IDLE"

section \<open>Buzzer pattern engine: \<open>src/hal/buzzer.c\<close>\<close>

datatype hal_buzzer_error_t =
    HAL_BUZZER_SUCCESS
  | HAL_BUZZER_ERROR_INIT
  | HAL_BUZZER_ERROR_INVALID
  | HAL_BUZZER_ERROR_STATE

abbreviation (input) HAL_BUZZER_INTENSITY_OFF :: "8 word" where "HAL_BUZZER_INTENSITY_OFF \<equiv> 0"
abbreviation (input) HAL_BUZZER_INTENSITY_LOW :: "8 word" where "HAL_BUZZER_INTENSITY_LOW \<equiv> 25"
abbreviation (input) HAL_BUZZER_INTENSITY_MEDIUM :: "8 word" where "HAL_BUZZER_INTENSITY_MEDIUM \<equiv> 50"
abbreviation (input) HAL_BUZZER_INTENSITY_HIGH :: "8 word" where "HAL_BUZZER_INTENSITY_HIGH \<equiv> 75"
abbreviation (input) HAL_BUZZER_INTENSITY_MAX :: "8 word" where "HAL_BUZZER_INTENSITY_MAX \<equiv> 100"

abbreviation (input) PWM_PERIOD_NS :: "32 word" where "PWM_PERIOD_NS \<equiv> 20000000"
abbreviation (input) PATTERN_INTERMITTENT_PERIOD_MS :: nat where "PATTERN_INTERMITTENT_PERIOD_MS \<equiv> 500"

text \<open>
  The static variables of the module, the static local \<open>state\<close> of
  \<open>pattern_intermittent_handler\<close> (field \<open>handler_state\<close>), and the output: the period
  and the pulse width of the latest duty-cycle request handed to the PWM driver by
  \<open>pwm_set_dt\<close>. The module's \<open>initialized\<close> is \<open>initialized_buzzer\<close>, since the BLE
  and battery modules have a variable of the same name.
\<close>

record hal_buzzer =
  initialized_buzzer :: bool
  current_intensity :: "8 word"
  pattern_intermittent_work :: k_work_delayable
  pattern_intermittent_active :: bool
  handler_state :: bool
  pwm_period_ns :: "32 word"
  pwm_pulse_ns :: "32 word"

text \<open>The C initialisers; no duty-cycle request has been made yet.\<close>

definition buzzer_power_on :: hal_buzzer where
  "buzzer_power_on =
     \<lparr>initialized_buzzer = False,
      current_intensity = HAL_BUZZER_INTENSITY_MEDIUM,
      pattern_intermittent_work = WORK_IDLE,
      pattern_intermittent_active = False,
      handler_state = False,
      pwm_period_ns = 0,
      pwm_pulse_ns = 0\<rparr>"

definition intensity_to_pulse_ns :: "8 word \<Rightarrow> 32 word" where
  "intensity_to_pulse_ns intensity =
     (let intensity = (if intensity > 100 then 100 else intensity)
      in (PWM_PERIOD_NS * ucast intensity) div 100)"

definition pwm_set_dt :: "32 word \<Rightarrow> 32 word \<Rightarrow> hal_buzzer \<Rightarrow> hal_buzzer" where
  "pwm_set_dt period pulse b = b\<lparr>pwm_period_ns := period, pwm_pulse_ns := pulse\<rparr>"

text \<open>
  \<open>pwm_set_intensity\<close> hands the request to the driver. Its return code is the
  driver's; every caller but \<open>hal_buzzer_init\<close> discards it, so only \<open>hal_buzzer_init\<close>
  takes the driver's answer as an argument.
\<close>

definition pwm_set_intensity :: "8 word \<Rightarrow> hal_buzzer \<Rightarrow> hal_buzzer" where
  "pwm_set_intensity intensity b =
     (let pulse_ns = intensity_to_pulse_ns intensity
      in pwm_set_dt PWM_PERIOD_NS pulse_ns b)"

definition pattern_intermittent_handler :: "hal_buzzer \<Rightarrow> hal_buzzer" where
  "pattern_intermittent_handler b =
     (if \<not> pattern_intermittent_active b then pwm_set_intensity 0 b
      else
        let b1 = b\<lparr>handler_state := \<not> handler_state b\<rparr>;
            b2 = (if handler_state b1 then pwm_set_intensity (current_intensity b1) b1
                  else pwm_set_intensity 0 b1)
        in b2\<lparr>pattern_intermittent_work :=
                 k_work_schedule (pattern_intermittent_work b2) PATTERN_INTERMITTENT_PERIOD_MS\<rparr>)"

definition stop_intermittent :: "hal_buzzer \<Rightarrow> hal_buzzer" where
  "stop_intermittent b =
     (let b1 = b\<lparr>pattern_intermittent_active := False\<rparr>;
          b2 = b1\<lparr>pattern_intermittent_work :=
                    k_work_cancel_delayable (pattern_intermittent_work b1)\<rparr>
      in pwm_set_intensity 0 b2)"

definition hal_buzzer_set_intermittent ::
    "bool \<Rightarrow> 8 word \<Rightarrow> hal_buzzer \<Rightarrow> hal_buzzer_error_t \<times> hal_buzzer" where
  "hal_buzzer_set_intermittent active intensity b =
     (if \<not> initialized_buzzer b then (HAL_BUZZER_ERROR_STATE, b)
      else if intensity > 100 then (HAL_BUZZER_ERROR_INVALID, b)
      else if active then
        (HAL_BUZZER_SUCCESS,
         b\<lparr>current_intensity := intensity,
           pattern_intermittent_active := True,
           pattern_intermittent_work := k_work_schedule (pattern_intermittent_work b) 0\<rparr>)
      else (HAL_BUZZER_SUCCESS, stop_intermittent b))"

text \<open>
  \<open>hal_buzzer_init\<close>: \<open>device_ready\<close> is the answer of \<open>device_is_ready\<close>, \<open>pwm_ret\<close> the
  return code of the driver for the first duty-cycle request.
\<close>

definition hal_buzzer_init :: "bool \<Rightarrow> int \<Rightarrow> hal_buzzer \<Rightarrow> hal_buzzer_error_t \<times> hal_buzzer" where
  "hal_buzzer_init device_ready pwm_ret b =
     (if initialized_buzzer b then (HAL_BUZZER_SUCCESS, b)
      else if \<not> device_ready then (HAL_BUZZER_ERROR_INIT, b)
      else
        let b1 = pwm_set_intensity 0 b
        in if pwm_ret < 0 then (HAL_BUZZER_ERROR_INIT, b1)
           else (HAL_BUZZER_SUCCESS,
                 b1\<lparr>pattern_intermittent_work := WORK_IDLE,
                    current_intensity := HAL_BUZZER_INTENSITY_MEDIUM,
                    pattern_intermittent_active := False,
                    initialized_buzzer := True\<rparr>))"

subsection \<open>Runs of the engine\<close>

text \<open>
  The kernel's side of the delayable work item: when the item is scheduled and its delay
  has passed, the item becomes idle and the handler runs. Nothing happens to an idle
  item.
\<close>

definition pattern_work_expires :: "hal_buzzer \<Rightarrow> hal_buzzer" where
  "pattern_work_expires b =
     (case pattern_intermittent_work b of
        WORK_IDLE \<Rightarrow> b
      | WORK_SCHEDULED d \<Rightarrow> pattern_intermittent_handler (b\<lparr>pattern_intermittent_work := WORK_IDLE\<rparr>))"

text \<open>
  Everything that can happen to the engine: the two public functions are called, or
  the scheduled work item expires. The reachable states are the results of
  \<open>buzzer_run\<close> on any list of events, from the power-on state.
\<close>

datatype buzzer_event =
    CALL_INIT bool int
  | CALL_SET_INTERMITTENT bool "8 word"
  | WORK_EXPIRES

fun buzzer_step :: "hal_buzzer \<Rightarrow> buzzer_event \<Rightarrow> hal_buzzer" where
  "buzzer_step b (CALL_INIT device_ready pwm_ret) = snd (hal_buzzer_init device_ready pwm_ret b)"
| "buzzer_step b (CALL_SET_INTERMITTENT active intensity) =
     snd (hal_buzzer_set_intermittent active intensity b)"
| "buzzer_step b WORK_EXPIRES = pattern_work_expires b"

definition buzzer_run :: "buzzer_event list \<Rightarrow> hal_buzzer" where
  "buzzer_run events = foldl buzzer_step buzzer_power_on events"

text \<open>The invariant of the specification: the output is 0 whenever the pattern is inactive.\<close>

definition output_off_when_inactive :: "hal_buzzer \<Rightarrow> bool" where
  "output_off_when_inactive b = (\<not> pattern_intermittent_active b \<longrightarrow> pwm_pulse_ns b = 0)"

text \<open>
  The scenario of the specification: \<open>setIntermittent(true, 50)\<close>, then \<open>k\<close> expiries
  of the work item, then \<open>setIntermittent(false, 0)\<close>.
\<close>

definition on_then_off :: "nat \<Rightarrow> hal_buzzer \<Rightarrow> hal_buzzer" where
  "on_then_off k b =
     snd (hal_buzzer_set_intermittent False 0
       ((pattern_work_expires ^^ k) (snd (hal_buzzer_set_intermittent True 50 b))))"

section \<open>Application callbacks: \<open>src/main.c\<close>\<close>

text \<open>
  What the callbacks of \<open>main.c\<close> can change: the buzzer engine and the two status
  LEDs (\<open>gpio_pin_set_dt\<close> sets the pin).
\<close>

record app_state =
  buzzer :: hal_buzzer
  led_verde :: bool
  led_azul :: bool

definition app_power_on :: app_state where
  "app_power_on = \<lparr>buzzer = buzzer_power_on, led_verde = False, led_azul = False\<rparr>"

record hal_ble_conn_info_t =
  interval_ms :: "16 word"
  latency :: "16 word"
  timeout_ms :: "16 word"

definition on_ble_connected :: "hal_ble_conn_info_t \<Rightarrow> app_state \<Rightarrow> app_state" where
  "on_ble_connected conn_info a = a\<lparr>led_azul := False, led_verde := True\<rparr>"

definition on_ble_disconnected :: "8 word \<Rightarrow> app_state \<Rightarrow> app_state" where
  "on_ble_disconnected reason a =
     (let a1 = a\<lparr>buzzer := snd (hal_buzzer_set_intermittent False 0 (buzzer a))\<rparr>
      in a1\<lparr>led_verde := False\<rparr>)"

definition on_ble_adv_started :: "app_state \<Rightarrow> app_state" where
  "on_ble_adv_started a = a\<lparr>led_azul := True\<rparr>"

definition on_ble_adv_stopped :: "app_state \<Rightarrow> app_state" where
  "on_ble_adv_stopped a = a"

definition on_buzzer_intermittent_write :: "bool \<Rightarrow> app_state \<Rightarrow> app_state" where
  "on_buzzer_intermittent_write buzzer_state a =
     a\<lparr>buzzer :=
         snd (hal_buzzer_set_intermittent buzzer_state HAL_BUZZER_INTENSITY_MEDIUM (buzzer a))\<rparr>"

section \<open>Buzzer GATT service: \<open>src/gatt/buzzer_service.c\<close>\<close>

text \<open>
  A function pointer is an optional function on the application state; \<open>None\<close> is
  NULL. ATT errors are values: \<open>Inl e\<close> is the return value \<open>BT_GATT_ERR(e)\<close>.
\<close>

datatype att_error =
    BT_ATT_ERR_INVALID_ATTRIBUTE_LEN
  | BT_ATT_ERR_INVALID_OFFSET
  | BT_ATT_ERR_VALUE_NOT_ALLOWED

record gatt_buzzer_service_cb =
  buzzer_intermittent_cb :: "(bool \<Rightarrow> app_state \<Rightarrow> app_state) option"

definition buzzer_cb_power_on :: gatt_buzzer_service_cb where
  "buzzer_cb_power_on = \<lparr>buzzer_intermittent_cb = None\<rparr>"

text \<open>
  \<open>buf\<close> is the written data and \<open>len\<close> its length, so the model takes the list of
  bytes. \<open>hd buf\<close> is read only where the list has exactly one element.
\<close>

definition write_buzzer_intermittent ::
    "8 word list \<Rightarrow> 16 word \<Rightarrow> gatt_buzzer_service_cb \<Rightarrow> app_state
      \<Rightarrow> (att_error + nat) \<times> app_state" where
  "write_buzzer_intermittent buf offset buzzer_cb a =
     (if length buf \<noteq> 1 then (Inl BT_ATT_ERR_INVALID_ATTRIBUTE_LEN, a)
      else if offset \<noteq> 0 then (Inl BT_ATT_ERR_INVALID_OFFSET, a)
      else case buzzer_intermittent_cb buzzer_cb of
             Some cb \<Rightarrow>
               let val = hd buf
               in if val = 0 \<or> val = 1 then (Inr (length buf), cb (val \<noteq> 0) a)
                  else (Inl BT_ATT_ERR_VALUE_NOT_ALLOWED, a)
           | None \<Rightarrow> (Inr (length buf), a))"

definition gatt_buzzer_service_init ::
    "gatt_buzzer_service_cb option \<Rightarrow> gatt_buzzer_service_cb \<Rightarrow> int \<times> gatt_buzzer_service_cb" where
  "gatt_buzzer_service_init callbacks buzzer_cb =
     (case callbacks of
        Some c \<Rightarrow> (0, buzzer_cb\<lparr>buzzer_intermittent_cb := buzzer_intermittent_cb c\<rparr>)
      | None \<Rightarrow> (0, buzzer_cb))"

text \<open>The callback structure of \<open>main.c\<close>.\<close>

definition buzzer_callbacks :: gatt_buzzer_service_cb where
  "buzzer_callbacks = \<lparr>buzzer_intermittent_cb = Some on_buzzer_intermittent_write\<rparr>"

section \<open>Connectivity manager: \<open>src/hal/ble.c\<close>\<close>

subsection \<open>Types of \<open>include/hal/ble.h\<close> and of the Bluetooth stack\<close>

datatype hal_ble_error_t =
    HAL_BLE_SUCCESS
  | HAL_BLE_ERROR_INIT
  | HAL_BLE_ERROR_INVALID
  | HAL_BLE_ERROR_STATE
  | HAL_BLE_ERROR_NOT_CONNECTED
  | HAL_BLE_ERROR_FAILED

datatype hal_ble_state_t =
    HAL_BLE_STATE_IDLE
  | HAL_BLE_STATE_READY
  | HAL_BLE_STATE_ADVERTISING
  | HAL_BLE_STATE_CONNECTED

record hal_ble_adv_params_t =
  interval_min_ms :: "16 word"
  interval_max_ms :: "16 word"
  connectable :: bool
  use_identity :: bool

text \<open>
  \<open>hal_ble_callbacks_t\<close>: four function pointers (the fields \<open>connected\<close>,
  \<open>disconnected\<close>, \<open>adv_started\<close>, \<open>adv_stopped\<close>, here with the prefix \<open>cb_\<close>).
\<close>

record hal_ble_callbacks_t =
  cb_connected :: "(hal_ble_conn_info_t \<Rightarrow> app_state \<Rightarrow> app_state) option"
  cb_disconnected :: "(8 word \<Rightarrow> app_state \<Rightarrow> app_state) option"
  cb_adv_started :: "(app_state \<Rightarrow> app_state) option"
  cb_adv_stopped :: "(app_state \<Rightarrow> app_state) option"

text \<open>A connection object of the stack is known by its identity.\<close>

type_synonym bt_conn = nat

text \<open>The part of \<open>struct bt_conn_info\<close> that \<open>on_connected\<close> reads.\<close>

record bt_conn_le_info =
  le_interval :: "16 word"
  le_latency :: "16 word"
  le_timeout :: "16 word"

datatype bt_le_adv_opt = BT_LE_ADV_OPT_CONN | BT_LE_ADV_OPT_USE_IDENTITY

text \<open>
  \<open>struct bt_le_adv_param\<close> (fields \<open>id\<close>, \<open>sid\<close>, \<open>secondary_max_skip\<close>, \<open>options\<close>,
  \<open>interval_min\<close>, \<open>interval_max\<close>, \<open>peer\<close>, here with the prefix \<open>param_\<close>). The option bits
  are a set, \<open>|=\<close> is insertion.
\<close>

record bt_le_adv_param =
  param_id :: "8 word"
  param_sid :: "8 word"
  param_secondary_max_skip :: "8 word"
  param_options :: "bt_le_adv_opt set"
  param_interval_min :: "32 word"
  param_interval_max :: "32 word"
  param_peer :: "nat option"

datatype bt_data_type = BT_DATA_FLAGS | BT_DATA_NAME_COMPLETE | BT_DATA_UUID128_ALL

record bt_data =
  data_type :: bt_data_type
  data_len :: nat
  data_bytes :: "8 word list"

text \<open>
  The calls that \<open>ble.c\<close> makes into the Bluetooth stack and the kernel. The module's
  record keeps them in the order they were made (\<open>bt_calls\<close>), so that a property can
  say which calls an operation made and how often.
\<close>

datatype bt_call =
    BT_ENABLE
  | BT_CONN_CB_REGISTER
  | K_WORK_INIT
  | K_WORK_SUBMIT
  | BT_CONN_REF bt_conn
  | BT_CONN_UNREF bt_conn
  | BT_LE_ADV_START bt_le_adv_param "bt_data list" "bt_data list"
  | BT_LE_ADV_STOP
  | BT_CONN_DISCONNECT bt_conn

subsection \<open>Constants\<close>

abbreviation (input) DEFAULT_ADV_INTERVAL_MIN_MS :: int where "DEFAULT_ADV_INTERVAL_MIN_MS \<equiv> 500"
abbreviation (input) DEFAULT_ADV_INTERVAL_MAX_MS :: int where "DEFAULT_ADV_INTERVAL_MAX_MS \<equiv> 500"
abbreviation (input) ADV_INTERVAL_MIN_MS :: "16 word" where "ADV_INTERVAL_MIN_MS \<equiv> 20"
abbreviation (input) ADV_INTERVAL_MAX_MS :: "16 word" where "ADV_INTERVAL_MAX_MS \<equiv> 10240"
abbreviation (input) MAX_DEVICE_NAME_LEN :: nat where "MAX_DEVICE_NAME_LEN \<equiv> 29"

text \<open>\<open>MS_TO_BLE_UNITS(ms) = (ms) * 8 / 5\<close>, computed in \<open>int\<close> on a non-negative value.\<close>

definition MS_TO_BLE_UNITS :: "int \<Rightarrow> int" where
  "MS_TO_BLE_UNITS ms = ms * 8 sdiv 5"

subsection \<open>Module state\<close>

text \<open>
  The static variables. \<open>adv_work\<close> is the work item: \<open>True\<close> while it is queued.
  \<open>ad_data\<close> and \<open>sd_data\<close> are lists, their lengths are \<open>ad_data_count\<close> and
  \<open>sd_data_count\<close>. \<open>adv_param\<close> is NULL or points to \<open>adv_param_storage\<close>: \<open>Some\<close> carries
  the stored parameters. The module's \<open>initialized\<close> is \<open>initialized_ble\<close>.
\<close>

record hal_ble =
  initialized_ble :: bool
  current_state :: hal_ble_state_t
  user_callbacks :: hal_ble_callbacks_t
  device_name :: string
  current_conn :: "bt_conn option"
  adv_work :: bool
  ad_data :: "bt_data list"
  sd_data :: "bt_data list"
  adv_param :: "bt_le_adv_param option"
  bt_calls :: "bt_call list"

definition ble_power_on :: hal_ble where
  "ble_power_on =
     \<lparr>initialized_ble = False,
      current_state = HAL_BLE_STATE_IDLE,
      user_callbacks = \<lparr>cb_connected = None, cb_disconnected = None,
                        cb_adv_started = None, cb_adv_stopped = None\<rparr>,
      device_name = [],
      current_conn = None,
      adv_work = False,
      ad_data = [],
      sd_data = [],
      adv_param = None,
      bt_calls = []\<rparr>"

definition bt_call :: "bt_call \<Rightarrow> hal_ble \<Rightarrow> hal_ble" where
  "bt_call c b = b\<lparr>bt_calls := bt_calls b @ [c]\<rparr>"

text \<open>\<open>k_work_submit(&adv_work)\<close>: the item is queued (it stays queued if it already was).\<close>

definition k_work_submit :: "hal_ble \<Rightarrow> hal_ble" where
  "k_work_submit b = (bt_call K_WORK_SUBMIT b)\<lparr>adv_work := True\<rparr>"

subsection \<open>Callbacks of the Bluetooth stack\<close>

text \<open>
  The functions take the module record and the application state, because a user
  callback changes the latter. \<open>conn_info_le\<close> is the answer of \<open>bt_conn_get_info\<close>
  (\<open>None\<close> when it returns an error).
\<close>

definition on_connected ::
    "bt_conn \<Rightarrow> 8 word \<Rightarrow> bt_conn_le_info option \<Rightarrow> hal_ble \<Rightarrow> app_state
      \<Rightarrow> hal_ble \<times> app_state" where
  "on_connected conn err conn_info_le b a =
     (if err \<noteq> 0 then (k_work_submit b, a)
      else
        let b1 = (case current_conn b of
                    Some old \<Rightarrow> bt_call (BT_CONN_UNREF old) b
                  | None \<Rightarrow> b);
            b2 = (bt_call (BT_CONN_REF conn) b1)\<lparr>current_conn := Some conn\<rparr>;
            b3 = b2\<lparr>current_state := HAL_BLE_STATE_CONNECTED\<rparr>
        in case cb_connected (user_callbacks b3) of
             None \<Rightarrow> (b3, a)
           | Some cb \<Rightarrow>
               let conn_info =
                     (case conn_info_le of
                        Some info \<Rightarrow>
                          \<lparr>interval_ms = word_of_int (uint (le_interval info) * 1250 sdiv 1000),
                           latency = le_latency info,
                           timeout_ms = word_of_int (uint (le_timeout info) * 10)\<rparr>
                      | None \<Rightarrow> \<lparr>interval_ms = 0, latency = 0, timeout_ms = 0\<rparr>)
               in (b3, cb conn_info a))"

definition on_disconnected ::
    "bt_conn \<Rightarrow> 8 word \<Rightarrow> hal_ble \<Rightarrow> app_state \<Rightarrow> hal_ble \<times> app_state" where
  "on_disconnected conn reason b a =
     (let b1 = (case current_conn b of
                  Some c \<Rightarrow> (bt_call (BT_CONN_UNREF c) b)\<lparr>current_conn := None\<rparr>
                | None \<Rightarrow> b);
          b2 = b1\<lparr>current_state := HAL_BLE_STATE_READY\<rparr>
      in case cb_disconnected (user_callbacks b2) of
           Some cb \<Rightarrow> (b2, cb reason a)
         | None \<Rightarrow> (b2, a))"

definition on_recycled :: "hal_ble \<Rightarrow> hal_ble" where
  "on_recycled b = k_work_submit b"

subsection \<open>Advertising\<close>

text \<open>\<open>BT_LE_ADV_PARAM(BT_LE_ADV_OPT_CONN | BT_LE_ADV_OPT_USE_IDENTITY, 800, 800, NULL)\<close>.\<close>

definition default_adv_param :: bt_le_adv_param where
  "default_adv_param =
     \<lparr>param_id = 0, param_sid = 0, param_secondary_max_skip = 0,
      param_options = {BT_LE_ADV_OPT_CONN, BT_LE_ADV_OPT_USE_IDENTITY},
      param_interval_min = word_of_int (MS_TO_BLE_UNITS DEFAULT_ADV_INTERVAL_MIN_MS),
      param_interval_max = word_of_int (MS_TO_BLE_UNITS DEFAULT_ADV_INTERVAL_MAX_MS),
      param_peer = None\<rparr>"

text \<open>\<open>adv_start_err\<close> is the return code of \<open>bt_le_adv_start\<close>.\<close>

definition adv_work_handler :: "int \<Rightarrow> hal_ble \<Rightarrow> app_state \<Rightarrow> hal_ble \<times> app_state" where
  "adv_work_handler adv_start_err b a =
     (if current_state b = HAL_BLE_STATE_CONNECTED then (b, a)
      else
        let param = (case adv_param b of Some p \<Rightarrow> p | None \<Rightarrow> default_adv_param);
            b1 = bt_call (BT_LE_ADV_START param (ad_data b) (sd_data b)) b
        in if adv_start_err \<noteq> 0 then (b1, a)
           else
             let b2 = b1\<lparr>current_state := HAL_BLE_STATE_ADVERTISING\<rparr>
             in case cb_adv_started (user_callbacks b2) of
                  Some cb \<Rightarrow> (b2, cb a)
                | None \<Rightarrow> (b2, a))"

text \<open>
  The kernel's side of \<open>adv_work\<close>: a queued item leaves the queue and its handler
  runs; nothing happens when the item is not queued.
\<close>

definition adv_work_runs :: "int \<Rightarrow> hal_ble \<Rightarrow> app_state \<Rightarrow> hal_ble \<times> app_state" where
  "adv_work_runs adv_start_err b a =
     (if adv_work b then adv_work_handler adv_start_err (b\<lparr>adv_work := False\<rparr>) a
      else (b, a))"

text \<open>
  The flags byte is \<open>BT_LE_AD_GENERAL | BT_LE_AD_NO_BREDR\<close> (\<open>0x02 | 0x04\<close>); the scan
  response carries the sixteen bytes of \<open>BT_UUID_BUZZER_SERVICE_VAL\<close>, least significant
  byte first.
\<close>

definition buzzer_uuid_val :: "8 word list" where
  "buzzer_uuid_val =
     [0xBC, 0x9A, 0x78, 0x56, 0x34, 0x12, 0xEF, 0xCD,
      0xAB, 0xEF, 0xCD, 0xAB, 0x78, 0x56, 0x34, 0x12]"

definition prepare_adv_data :: "hal_ble \<Rightarrow> hal_ble" where
  "prepare_adv_data b =
     (let name_len = length (device_name b);
          ad0 = [\<lparr>data_type = BT_DATA_FLAGS, data_len = 1, data_bytes = [0x06]\<rparr>];
          ad1 = (if name_len > 0
                 then ad0 @ [\<lparr>data_type = BT_DATA_NAME_COMPLETE, data_len = name_len,
                              data_bytes = map of_char (device_name b)\<rparr>]
                 else ad0);
          sd0 = [\<lparr>data_type = BT_DATA_UUID128_ALL, data_len = 16,
                  data_bytes = buzzer_uuid_val\<rparr>]
      in b\<lparr>ad_data := ad1, sd_data := sd0\<rparr>)"

subsection \<open>Public functions\<close>

text \<open>
  \<open>device_name_param\<close> is \<open>None\<close> for a NULL pointer, otherwise the bytes of the C string
  before its terminator, so \<open>strlen\<close> is \<open>length\<close>. \<open>bt_enable_err\<close> is the return code of
  \<open>bt_enable\<close>.
\<close>

definition hal_ble_init ::
    "string option \<Rightarrow> hal_ble_callbacks_t option \<Rightarrow> int \<Rightarrow> hal_ble
      \<Rightarrow> hal_ble_error_t \<times> hal_ble" where
  "hal_ble_init device_name_param callbacks bt_enable_err b =
     (if initialized_ble b then (HAL_BLE_SUCCESS, b)
      else case device_name_param of
        None \<Rightarrow> (HAL_BLE_ERROR_INVALID, b)
      | Some name \<Rightarrow>
          let name_len = length name
          in if name_len > MAX_DEVICE_NAME_LEN then (HAL_BLE_ERROR_INVALID, b)
             else
               let b1 = b\<lparr>device_name := take MAX_DEVICE_NAME_LEN name\<rparr>;
                   b2 = (case callbacks of
                           Some cbs \<Rightarrow> b1\<lparr>user_callbacks := cbs\<rparr>
                         | None \<Rightarrow> b1);
                   b3 = bt_call BT_ENABLE b2
               in if bt_enable_err \<noteq> 0 then (HAL_BLE_ERROR_INIT, b3)
                  else
                    let b4 = bt_call BT_CONN_CB_REGISTER b3;
                        b5 = prepare_adv_data b4;
                        b6 = (bt_call K_WORK_INIT b5)\<lparr>adv_work := False\<rparr>;
                        b7 = b6\<lparr>current_state := HAL_BLE_STATE_READY\<rparr>
                    in (HAL_BLE_SUCCESS, b7\<lparr>initialized_ble := True\<rparr>))"

definition hal_ble_start_advertising ::
    "hal_ble_adv_params_t option \<Rightarrow> hal_ble \<Rightarrow> hal_ble_error_t \<times> hal_ble" where
  "hal_ble_start_advertising adv_params b =
     (if \<not> initialized_ble b then (HAL_BLE_ERROR_STATE, b)
      else if current_state b = HAL_BLE_STATE_CONNECTED then (HAL_BLE_ERROR_STATE, b)
      else if current_state b = HAL_BLE_STATE_ADVERTISING then (HAL_BLE_SUCCESS, b)
      else case adv_params of
        Some p \<Rightarrow>
          if interval_min_ms p < ADV_INTERVAL_MIN_MS \<or>
             interval_min_ms p > ADV_INTERVAL_MAX_MS \<or>
             interval_max_ms p < ADV_INTERVAL_MIN_MS \<or>
             interval_max_ms p > ADV_INTERVAL_MAX_MS \<or>
             interval_min_ms p > interval_max_ms p
          then (HAL_BLE_ERROR_INVALID, b)
          else
            let options = {};
                options = (if connectable p then insert BT_LE_ADV_OPT_CONN options
                           else options);
                options = (if use_identity p then insert BT_LE_ADV_OPT_USE_IDENTITY options
                           else options);
                storage =
                  \<lparr>param_id = 0, param_sid = 0, param_secondary_max_skip = 0,
                   param_options = options,
                   param_interval_min = word_of_int (MS_TO_BLE_UNITS (uint (interval_min_ms p))),
                   param_interval_max = word_of_int (MS_TO_BLE_UNITS (uint (interval_max_ms p))),
                   param_peer = None\<rparr>
            in (HAL_BLE_SUCCESS, k_work_submit (b\<lparr>adv_param := Some storage\<rparr>))
      | None \<Rightarrow> (HAL_BLE_SUCCESS, k_work_submit (b\<lparr>adv_param := None\<rparr>)))"

text \<open>\<open>adv_stop_err\<close> is the return code of \<open>bt_le_adv_stop\<close>.\<close>

definition hal_ble_stop_advertising ::
    "int \<Rightarrow> hal_ble \<Rightarrow> app_state \<Rightarrow> hal_ble_error_t \<times> hal_ble \<times> app_state" where
  "hal_ble_stop_advertising adv_stop_err b a =
     (if \<not> initialized_ble b then (HAL_BLE_ERROR_STATE, b, a)
      else if current_state b \<noteq> HAL_BLE_STATE_ADVERTISING then (HAL_BLE_ERROR_STATE, b, a)
      else
        let b1 = bt_call BT_LE_ADV_STOP b
        in if adv_stop_err \<noteq> 0 then (HAL_BLE_ERROR_FAILED, b1, a)
           else
             let b2 = b1\<lparr>current_state := HAL_BLE_STATE_READY\<rparr>
             in case cb_adv_stopped (user_callbacks b2) of
                  Some cb \<Rightarrow> (HAL_BLE_SUCCESS, b2, cb a)
                | None \<Rightarrow> (HAL_BLE_SUCCESS, b2, a))"

text \<open>\<open>disconnect_err\<close> is the return code of \<open>bt_conn_disconnect\<close>.\<close>

definition hal_ble_disconnect :: "int \<Rightarrow> hal_ble \<Rightarrow> hal_ble_error_t \<times> hal_ble" where
  "hal_ble_disconnect disconnect_err b =
     (if \<not> initialized_ble b then (HAL_BLE_ERROR_STATE, b)
      else case current_conn b of
        None \<Rightarrow> (HAL_BLE_ERROR_NOT_CONNECTED, b)
      | Some c \<Rightarrow>
          let b1 = bt_call (BT_CONN_DISCONNECT c) b
          in if disconnect_err \<noteq> 0 then (HAL_BLE_ERROR_FAILED, b1)
             else (HAL_BLE_SUCCESS, b1))"

definition hal_ble_get_state :: "hal_ble \<Rightarrow> hal_ble_state_t" where
  "hal_ble_get_state b = current_state b"

definition hal_ble_is_connected :: "hal_ble \<Rightarrow> bool" where
  "hal_ble_is_connected b = (current_state b = HAL_BLE_STATE_CONNECTED \<and> current_conn b \<noteq> None)"

text \<open>The callback structure of \<open>main.c\<close>.\<close>

definition ble_callbacks :: hal_ble_callbacks_t where
  "ble_callbacks =
     \<lparr>cb_connected = Some on_ble_connected,
      cb_disconnected = Some on_ble_disconnected,
      cb_adv_started = Some on_ble_adv_started,
      cb_adv_stopped = Some on_ble_adv_stopped\<rparr>"

section \<open>Battery GATT service: \<open>src/gatt/battery_service.c\<close>\<close>

text \<open>
  The connection-related part of the service: its own connection reference (the C
  variable \<open>current_conn\<close> of this file, here \<open>current_conn_bas\<close>), the notification
  flag, the level characteristic, and the stack calls the service makes.
\<close>

datatype bas_call =
    BAS_CONN_REF bt_conn
  | BAS_CONN_UNREF bt_conn
  | BAS_GATT_NOTIFY bt_conn "8 word"

record gatt_battery_service =
  battery_level :: "8 word"
  current_conn_bas :: "bt_conn option"
  notify_enabled :: bool
  bas_calls :: "bas_call list"

definition bas_power_on :: gatt_battery_service where
  "bas_power_on =
     \<lparr>battery_level = 0, current_conn_bas = None, notify_enabled = False, bas_calls = []\<rparr>"

abbreviation (input) BT_GATT_CCC_NOTIFY :: "16 word" where "BT_GATT_CCC_NOTIFY \<equiv> 1"

definition battery_level_ccc_changed :: "16 word \<Rightarrow> gatt_battery_service \<Rightarrow> gatt_battery_service" where
  "battery_level_ccc_changed v g = g\<lparr>notify_enabled := (v = BT_GATT_CCC_NOTIFY)\<rparr>"

definition connected_cb :: "bt_conn \<Rightarrow> 8 word \<Rightarrow> gatt_battery_service \<Rightarrow> gatt_battery_service" where
  "connected_cb conn err g =
     (if err \<noteq> 0 then g
      else
        let g1 = (case current_conn_bas g of
                    Some old \<Rightarrow> g\<lparr>bas_calls := bas_calls g @ [BAS_CONN_UNREF old]\<rparr>
                  | None \<Rightarrow> g)
        in g1\<lparr>bas_calls := bas_calls g1 @ [BAS_CONN_REF conn], current_conn_bas := Some conn\<rparr>)"

definition disconnected_cb :: "bt_conn \<Rightarrow> 8 word \<Rightarrow> gatt_battery_service \<Rightarrow> gatt_battery_service" where
  "disconnected_cb conn reason g =
     (let g1 = (case current_conn_bas g of
                  Some c \<Rightarrow> g\<lparr>bas_calls := bas_calls g @ [BAS_CONN_UNREF c],
                              current_conn_bas := None\<rparr>
                | None \<Rightarrow> g)
      in g1\<lparr>notify_enabled := False\<rparr>)"

text \<open>
  \<open>notify_err\<close> is the return code of \<open>bt_gatt_notify\<close>; \<open>Inl\<close> is a negative errno,
  \<open>Inr\<close> the returned code otherwise (0 on success).
\<close>

definition gatt_battery_service_notify ::
    "8 word \<Rightarrow> int \<Rightarrow> gatt_battery_service \<Rightarrow> (errno + int) \<times> gatt_battery_service" where
  "gatt_battery_service_notify percentage notify_err g =
     (case current_conn_bas g of
        None \<Rightarrow> (Inl ENOTCONN, g)
      | Some c \<Rightarrow>
          if \<not> notify_enabled g then (Inl EACCES, g)
          else
            let g1 = g\<lparr>battery_level := percentage\<rparr>;
                g2 = g1\<lparr>bas_calls := bas_calls g1 @ [BAS_GATT_NOTIFY c (battery_level g1)]\<rparr>
            in if notify_err \<noteq> 0 then (Inr notify_err, g2) else (Inr 0, g2))"

section \<open>The firmware as a whole\<close>

text \<open>
  The modules side by side. A link event of the Bluetooth stack reaches every
  registered connection callback: \<open>conn_callbacks\<close> of \<open>ble.c\<close> (registered by
  \<open>hal_ble_init\<close>) and \<open>battery_conn_callbacks\<close> of \<open>battery_service.c\<close> (registered
  statically). The two work on different variables, so their order does not matter.
  The stack delivers link events only once \<open>hal_ble_init\<close> has enabled it.
\<close>

record firmware =
  ble :: hal_ble
  app :: app_state
  bas :: gatt_battery_service
  buzzer_cb :: gatt_buzzer_service_cb

definition firmware_power_on :: firmware where
  "firmware_power_on =
     \<lparr>ble = ble_power_on, app = app_power_on, bas = bas_power_on,
      buzzer_cb = buzzer_cb_power_on\<rparr>"

definition bt_connected_event ::
    "bt_conn \<Rightarrow> 8 word \<Rightarrow> bt_conn_le_info option \<Rightarrow> firmware \<Rightarrow> firmware" where
  "bt_connected_event conn err conn_info_le f =
     (let (b, a) = on_connected conn err conn_info_le (ble f) (app f)
      in f\<lparr>ble := b, app := a, bas := connected_cb conn err (bas f)\<rparr>)"

definition bt_disconnected_event :: "bt_conn \<Rightarrow> 8 word \<Rightarrow> firmware \<Rightarrow> firmware" where
  "bt_disconnected_event conn reason f =
     (let (b, a) = on_disconnected conn reason (ble f) (app f)
      in f\<lparr>ble := b, app := a, bas := disconnected_cb conn reason (bas f)\<rparr>)"

definition bt_recycled_event :: "firmware \<Rightarrow> firmware" where
  "bt_recycled_event f = f\<lparr>ble := on_recycled (ble f)\<rparr>"

definition adv_work_event :: "int \<Rightarrow> firmware \<Rightarrow> firmware" where
  "adv_work_event adv_start_err f =
     (let (b, a) = adv_work_runs adv_start_err (ble f) (app f)
      in f\<lparr>ble := b, app := a\<rparr>)"

definition gatt_write_event :: "8 word list \<Rightarrow> 16 word \<Rightarrow> firmware \<Rightarrow> (att_error + nat) \<times> firmware" where
  "gatt_write_event buf offset f =
     (let (r, a) = write_buzzer_intermittent buf offset (buzzer_cb f) (app f)
      in (r, f\<lparr>app := a\<rparr>))"

subsection \<open>The start-up sequence of \<open>main\<close>, as far as these modules go\<close>

text \<open>
  \<open>main\<close> initialises the buzzer, then the BLE module with \<open>ble_callbacks\<close>, then the
  buzzer service with \<open>buzzer_callbacks\<close>, and then starts advertising with intervals
  of 500 ms; it stops at the first failure. \<open>firmware_started\<close> is the state after a
  start-up where every collaborator answered with success and the device name is
  \<open>name\<close>; \<open>firmware_advertising\<close> is the state once the queued advertising work has
  run and the radio has accepted it.
\<close>

definition main_adv_params :: hal_ble_adv_params_t where
  "main_adv_params =
     \<lparr>interval_min_ms = 500, interval_max_ms = 500, connectable = True, use_identity = True\<rparr>"

definition firmware_started :: "string \<Rightarrow> firmware" where
  "firmware_started name =
     (let f0 = firmware_power_on;
          f1 = f0\<lparr>app := (app f0)\<lparr>buzzer := snd (hal_buzzer_init True 0 (buzzer (app f0)))\<rparr>\<rparr>;
          f2 = f1\<lparr>ble := snd (hal_ble_init (Some name) (Some ble_callbacks) 0 (ble f1))\<rparr>;
          f3 = f2\<lparr>buzzer_cb := snd (gatt_buzzer_service_init (Some buzzer_callbacks) (buzzer_cb f2))\<rparr>
      in f3\<lparr>ble := snd (hal_ble_start_advertising (Some main_adv_params) (ble f3))\<rparr>)"

definition firmware_advertising :: firmware where
  "firmware_advertising = adv_work_event 0 (firmware_started ''Amigo Perto'')"

definition firmware_connected :: firmware where
  "firmware_connected = bt_connected_event 1 0 None firmware_advertising"

text \<open>
  A connected client has written 0x01 to the buzzer characteristic and has enabled the
  battery notifications.
\<close>

definition firmware_alarming :: firmware where
  "firmware_alarming =
     (let f1 = snd (gatt_write_event [1] 0 firmware_connected)
      in f1\<lparr>bas := battery_level_ccc_changed BT_GATT_CCC_NOTIFY (bas f1)\<rparr>)"

text \<open>How often the connectivity manager has released a connection reference.\<close>

fun is_conn_unref :: "bt_call \<Rightarrow> bool" where
  "is_conn_unref (BT_CONN_UNREF c) = True"
| "is_conn_unref _ = False"

definition conn_unref_count :: "hal_ble \<Rightarrow> nat" where
  "conn_unref_count b = length (filter is_conn_unref (bt_calls b))"

text \<open>The range condition on an advertising configuration, as the specification words it.\<close>

definition adv_config_valid :: "hal_ble_adv_params_t \<Rightarrow> bool" where
  "adv_config_valid p =
     (20 \<le> uint (interval_min_ms p) \<and> uint (interval_min_ms p) \<le> uint (interval_max_ms p)
      \<and> uint (interval_max_ms p) \<le> 10240)"

subsection \<open>Runs of the firmware after start-up\<close>

text \<open>
  After its start-up \<open>main\<close> sleeps for ever and calls nothing; everything that happens
  afterwards is an event. The Bluetooth stack has at most one link up (\<open>stack_link\<close>):
  it reports a connection only while it has no link up, and it reports a disconnection
  only for the link it has reported as connected. An event that the stack cannot deliver
  in the current state is skipped. The other events are allowed at any time: the queued
  advertising work runs (with any answer of the radio), a connection attempt fails, the
  connection object is recycled, a client writes the buzzer characteristic or the
  notification descriptor, the work item of the buzzer pattern expires.
\<close>

record world =
  fw :: firmware
  stack_link :: "bt_conn option"

datatype firmware_event =
    ADV_WORK_RUNS int
  | LINK_CONNECTED bt_conn "bt_conn_le_info option"
  | LINK_CONNECT_FAILED bt_conn "8 word"
  | LINK_DISCONNECTED "8 word"
  | LINK_RECYCLED
  | CLIENT_WRITE "8 word list" "16 word"
  | CLIENT_CCC "16 word"
  | PATTERN_WORK_EXPIRES

fun world_step :: "world \<Rightarrow> firmware_event \<Rightarrow> world" where
  "world_step w (ADV_WORK_RUNS adv_start_err) = w\<lparr>fw := adv_work_event adv_start_err (fw w)\<rparr>"
| "world_step w (LINK_CONNECTED conn conn_info_le) =
     (case stack_link w of
        None \<Rightarrow> w\<lparr>fw := bt_connected_event conn 0 conn_info_le (fw w), stack_link := Some conn\<rparr>
      | Some c \<Rightarrow> w)"
| "world_step w (LINK_CONNECT_FAILED conn err) =
     (if err \<noteq> 0 then w\<lparr>fw := bt_connected_event conn err None (fw w)\<rparr> else w)"
| "world_step w (LINK_DISCONNECTED reason) =
     (case stack_link w of
        Some c \<Rightarrow> w\<lparr>fw := bt_disconnected_event c reason (fw w), stack_link := None\<rparr>
      | None \<Rightarrow> w)"
| "world_step w LINK_RECYCLED = w\<lparr>fw := bt_recycled_event (fw w)\<rparr>"
| "world_step w (CLIENT_WRITE buf offset) = w\<lparr>fw := snd (gatt_write_event buf offset (fw w))\<rparr>"
| "world_step w (CLIENT_CCC v) =
     w\<lparr>fw := (fw w)\<lparr>bas := battery_level_ccc_changed v (bas (fw w))\<rparr>\<rparr>"
| "world_step w PATTERN_WORK_EXPIRES =
     w\<lparr>fw := (fw w)\<lparr>app := (app (fw w))\<lparr>buzzer := pattern_work_expires (buzzer (app (fw w)))\<rparr>\<rparr>\<rparr>"

definition firmware_run :: "string \<Rightarrow> firmware_event list \<Rightarrow> world" where
  "firmware_run name events =
     foldl world_step \<lparr>fw = firmware_started name, stack_link = None\<rparr> events"

text \<open>
  What holds in every state of such a run: the connectivity manager holds a reference
  exactly for the link that is up, the callbacks of \<open>main\<close> are registered, and the
  buzzer engine is initialised.
\<close>

definition wired_and_linked :: "world \<Rightarrow> bool" where
  "wired_and_linked w =
     (current_conn (ble (fw w)) = stack_link w
      \<and> user_callbacks (ble (fw w)) = ble_callbacks
      \<and> buzzer_cb (fw w) = buzzer_callbacks
      \<and> initialized_buzzer (buzzer (app (fw w))))"

chapter \<open>Properties\<close>

section \<open>Battery gauge: percentage and state\<close>

lemma sdiv_nonneg: "0 \<le> a \<Longrightarrow> 0 < b \<Longrightarrow> (a::int) sdiv b = a div b"
  by (simp add: signed_divide_int_def sgn_if)

lemma div_bounds:
  fixes a b c :: int
  assumes "0 \<le> a" "a \<le> b * c" "0 < b"
  shows "0 \<le> a div b \<and> a div b \<le> c"
proof
  show "0 \<le> a div b" using assms by (simp add: pos_imp_zdiv_nonneg_iff)
  have "a div b \<le> (b * c) div b" using assms by (intro zdiv_mono1) simp_all
  then show "a div b \<le> c" using assms by simp
qed

text \<open>
  The 32-bit arithmetic of \<open>linear_interpolate\<close> cannot overflow on the calls that
  \<open>hal_battery_voltage_to_percentage\<close> makes: the argument is a 16-bit voltage and the
  rise of a segment is at most 40.
\<close>

lemma linear_interpolate_fits_int32:
  fixes x x0 y0 y1 :: int
  assumes "0 \<le> x" "x < 65536" "0 \<le> x0" "x0 \<le> 3000" "0 \<le> y0" "y0 \<le> y1" "y1 \<le> 100"
  shows "- (2 ^ 31) \<le> (x - x0) * (y1 - y0) \<and> (x - x0) * (y1 - y0) < 2 ^ 31"
proof -
  have d: "0 \<le> y1 - y0" "y1 - y0 \<le> 100" using assms by simp_all
  have "(x - x0) * (y1 - y0) \<le> 65536 * (y1 - y0)"
    using assms d by (intro mult_right_mono) simp_all
  moreover have "- 3000 * (y1 - y0) \<le> (x - x0) * (y1 - y0)"
    using assms d by (intro mult_right_mono) simp_all
  ultimately show ?thesis using d by simp
qed

lemma percentage_int_range: "0 \<le> percentage_int x \<and> percentage_int x \<le> 100"
proof -
  consider "x < 2000" | "2000 \<le> x" "x < 2200" | "2200 \<le> x" "x < 2500"
    | "2500 \<le> x" "x < 2800" | "2800 \<le> x" "x < 3000" | "3000 \<le> x"
    by linarith
  then show ?thesis
  proof cases
    case 1 then show ?thesis by (simp add: percentage_int_def)
  next
    case 2
    then show ?thesis
      using div_bounds [of "(x - 2000) * 10" 200 10] by (simp add: percentage_int_def)
  next
    case 3
    then show ?thesis
      using div_bounds [of "(x - 2200) * 20" 300 20] by (simp add: percentage_int_def)
  next
    case 4
    then show ?thesis
      using div_bounds [of "(x - 2500) * 40" 300 40] by (simp add: percentage_int_def)
  next
    case 5
    then show ?thesis
      using div_bounds [of "(x - 2800) * 30" 200 30] by (simp add: percentage_int_def)
  next
    case 6 then show ?thesis by (simp add: percentage_int_def)
  qed
qed

text \<open>The C function computes \<open>percentage_int\<close>; the final clamps and the cast change nothing.\<close>

lemma percentage_closed_form:
  "uint (hal_battery_voltage_to_percentage v) = percentage_int (uint v)"
proof -
  define x where "x = uint v"
  have body:
    "(if x \<ge> BATTERY_VOLTAGE_MAX_MV then 100
      else if x \<ge> BATTERY_VOLTAGE_GOOD_MV then
        linear_interpolate x BATTERY_VOLTAGE_GOOD_MV 70 BATTERY_VOLTAGE_MAX_MV 100
      else if x \<ge> BATTERY_VOLTAGE_LOW_MV then
        linear_interpolate x BATTERY_VOLTAGE_LOW_MV 30 BATTERY_VOLTAGE_GOOD_MV 70
      else if x \<ge> BATTERY_VOLTAGE_CRIT_MV then
        linear_interpolate x BATTERY_VOLTAGE_CRIT_MV 10 BATTERY_VOLTAGE_LOW_MV 30
      else if x \<ge> BATTERY_VOLTAGE_MIN_MV then
        linear_interpolate x BATTERY_VOLTAGE_MIN_MV 0 BATTERY_VOLTAGE_CRIT_MV 10
      else 0) = percentage_int x"
    by (simp add: linear_interpolate_def percentage_int_def sdiv_nonneg algebra_simps)
  have r: "0 \<le> percentage_int x" "percentage_int x \<le> 100"
    using percentage_int_range [of x] by simp_all
  have "hal_battery_voltage_to_percentage v = word_of_int (percentage_int x)"
    unfolding hal_battery_voltage_to_percentage_def Let_def x_def [symmetric] body
    using r by simp
  moreover have "uint (word_of_int (percentage_int x) :: 8 word) = percentage_int x"
    using r by (simp add: uint_word_of_int take_bit_eq_mod)
  ultimately show ?thesis by (simp add: x_def)
qed

lemma spec_percentage_closed_form: "spec_percentage x = percentage_int x"
proof -
  consider "x < 2000" | "2000 \<le> x" "x < 2200" | "x = 2200" | "2200 < x" "x < 2500"
    | "x = 2500" | "2500 < x" "x < 2800" | "x = 2800" | "2800 < x" "x < 3000"
    | "x = 3000" | "3000 < x"
    by linarith
  then show ?thesis
  proof cases
    case 2
    then show ?thesis
      using div_bounds [of "(x - 2000) * 10" 200 10]
      by (simp add: spec_percentage_def spec_breakpoints_def percentage_int_def sdiv_nonneg)
  next
    case 4
    then show ?thesis
      using div_bounds [of "(x - 2200) * 20" 300 20]
      by (simp add: spec_percentage_def spec_breakpoints_def percentage_int_def sdiv_nonneg)
  next
    case 6
    then show ?thesis
      using div_bounds [of "(x - 2500) * 40" 300 40]
      by (simp add: spec_percentage_def spec_breakpoints_def percentage_int_def sdiv_nonneg)
  next
    case 8
    then show ?thesis
      using div_bounds [of "(x - 2800) * 30" 200 30]
      by (simp add: spec_percentage_def spec_breakpoints_def percentage_int_def sdiv_nonneg)
  qed (simp_all add: spec_percentage_def spec_breakpoints_def percentage_int_def sdiv_nonneg)
qed

lemma segment_rise_mono:
  assumes "0 \<le> dy" "x0 < x1" "x \<le> y"
  shows "segment_rise x0 x1 dy x \<le> segment_rise x0 x1 dy y"
proof -
  have "max x0 (min x1 x) - x0 \<le> max x0 (min x1 y) - x0"
    using assms(3) by simp
  then have "(max x0 (min x1 x) - x0) * dy \<le> (max x0 (min x1 y) - x0) * dy"
    using assms(1) by (rule mult_right_mono)
  then show ?thesis
    unfolding segment_rise_def using assms(2) by (intro zdiv_mono1) simp_all
qed

lemma percentage_int_segments:
  "percentage_int x =
     segment_rise 2000 2200 10 x + segment_rise 2200 2500 20 x
       + segment_rise 2500 2800 40 x + segment_rise 2800 3000 30 x"
proof -
  consider "x < 2000" | "2000 \<le> x" "x < 2200" | "2200 \<le> x" "x < 2500"
    | "2500 \<le> x" "x < 2800" | "2800 \<le> x" "x < 3000" | "3000 \<le> x"
    by linarith
  then show ?thesis
    by cases (simp_all add: percentage_int_def segment_rise_def)
qed

lemma percentage_int_mono: "x \<le> y \<Longrightarrow> percentage_int x \<le> percentage_int y"
  unfolding percentage_int_segments
  by (intro add_mono segment_rise_mono) simp_all

lemma percentage_to_state_not_unknown:
  "hal_battery_percentage_to_state p \<noteq> HAL_BATTERY_STATE_UNKNOWN"
  by (simp add: hal_battery_percentage_to_state_def)

text \<open>
  C1. For every 16-bit voltage, \<open>hal_battery_voltage_to_percentage\<close> returns the value
  that piecewise linear interpolation with integer truncation over the breakpoints
  (2000 mV, 0), (2200 mV, 10), (2500 mV, 30), (2800 mV, 70), (3000 mV, 100) gives, with
  0 below 2000 mV and 100 from 3000 mV on; in particular it maps 1999 to 0, 2000 to 0,
  2100 to 5, 2200 to 10, 2350 to 20, 2500 to 30, 2650 to 50, 2800 to 70, 2900 to 85,
  3000 to 100 and 3100 to 100.
\<close>

theorem voltage_to_percentage_interpolates:
  "uint (hal_battery_voltage_to_percentage v) = spec_percentage (uint v)
   \<and> hal_battery_voltage_to_percentage 1999 = 0
   \<and> hal_battery_voltage_to_percentage 2000 = 0
   \<and> hal_battery_voltage_to_percentage 2100 = 5
   \<and> hal_battery_voltage_to_percentage 2200 = 10
   \<and> hal_battery_voltage_to_percentage 2350 = 20
   \<and> hal_battery_voltage_to_percentage 2500 = 30
   \<and> hal_battery_voltage_to_percentage 2650 = 50
   \<and> hal_battery_voltage_to_percentage 2800 = 70
   \<and> hal_battery_voltage_to_percentage 2900 = 85
   \<and> hal_battery_voltage_to_percentage 3000 = 100
   \<and> hal_battery_voltage_to_percentage 3100 = 100"
proof -
  have general: "uint (hal_battery_voltage_to_percentage v) = spec_percentage (uint v)"
    by (simp add: percentage_closed_form spec_percentage_closed_form)
  have table:
    "hal_battery_voltage_to_percentage 1999 = 0"
    "hal_battery_voltage_to_percentage 2000 = 0"
    "hal_battery_voltage_to_percentage 2100 = 5"
    "hal_battery_voltage_to_percentage 2200 = 10"
    "hal_battery_voltage_to_percentage 2350 = 20"
    "hal_battery_voltage_to_percentage 2500 = 30"
    "hal_battery_voltage_to_percentage 2650 = 50"
    "hal_battery_voltage_to_percentage 2800 = 70"
    "hal_battery_voltage_to_percentage 2900 = 85"
    "hal_battery_voltage_to_percentage 3000 = 100"
    "hal_battery_voltage_to_percentage 3100 = 100"
    by (simp_all add: hal_battery_voltage_to_percentage_def linear_interpolate_def sdiv_nonneg)
  from general table show ?thesis by simp
qed

text \<open>
  C9. For every 8-bit percentage, \<open>hal_battery_percentage_to_state\<close> returns Good if
  and only if the percentage is above 70, Medium if and only if it is above 30 and at
  most 70, Low if and only if it is above 10 and at most 30, and Critical otherwise;
  the boundary values 70, 30 and 10 fall to the lower tier (70 is Medium, 71 is Good).
\<close>

theorem percentage_to_state_tiers:
  "(hal_battery_percentage_to_state p = HAL_BATTERY_STATE_GOOD) = (70 < p)
   \<and> (hal_battery_percentage_to_state p = HAL_BATTERY_STATE_MEDIUM) = (30 < p \<and> p \<le> 70)
   \<and> (hal_battery_percentage_to_state p = HAL_BATTERY_STATE_LOW) = (10 < p \<and> p \<le> 30)
   \<and> (hal_battery_percentage_to_state p = HAL_BATTERY_STATE_CRITICAL) = (p \<le> 10)
   \<and> hal_battery_percentage_to_state 71 = HAL_BATTERY_STATE_GOOD
   \<and> hal_battery_percentage_to_state 70 = HAL_BATTERY_STATE_MEDIUM
   \<and> hal_battery_percentage_to_state 31 = HAL_BATTERY_STATE_MEDIUM
   \<and> hal_battery_percentage_to_state 30 = HAL_BATTERY_STATE_LOW
   \<and> hal_battery_percentage_to_state 11 = HAL_BATTERY_STATE_LOW
   \<and> hal_battery_percentage_to_state 10 = HAL_BATTERY_STATE_CRITICAL"
proof -
  have tiers:
    "(hal_battery_percentage_to_state p = HAL_BATTERY_STATE_GOOD) = (70 < p)"
    "(hal_battery_percentage_to_state p = HAL_BATTERY_STATE_MEDIUM) = (30 < p \<and> p \<le> 70)"
    "(hal_battery_percentage_to_state p = HAL_BATTERY_STATE_LOW) = (10 < p \<and> p \<le> 30)"
    "(hal_battery_percentage_to_state p = HAL_BATTERY_STATE_CRITICAL) = (p \<le> 10)"
    unfolding hal_battery_percentage_to_state_def by (auto simp: word_less_def word_le_def)
  have points:
    "hal_battery_percentage_to_state 71 = HAL_BATTERY_STATE_GOOD"
    "hal_battery_percentage_to_state 70 = HAL_BATTERY_STATE_MEDIUM"
    "hal_battery_percentage_to_state 31 = HAL_BATTERY_STATE_MEDIUM"
    "hal_battery_percentage_to_state 30 = HAL_BATTERY_STATE_LOW"
    "hal_battery_percentage_to_state 11 = HAL_BATTERY_STATE_LOW"
    "hal_battery_percentage_to_state 10 = HAL_BATTERY_STATE_CRITICAL"
    by (simp_all add: hal_battery_percentage_to_state_def)
  from tiers points show ?thesis by simp
qed

text \<open>
  C10. For every voltage the percentage lies in \<open>[0, 100]\<close>; the mapping is monotonically
  non-decreasing (\<open>v1 \<le> v2\<close> gives \<open>percentage v1 \<le> percentage v2\<close>); and the state
  derived from a computed percentage is never Unknown.
\<close>

theorem percentage_bounded_monotone:
  "0 \<le> uint (hal_battery_voltage_to_percentage v)
   \<and> uint (hal_battery_voltage_to_percentage v) \<le> 100
   \<and> (v1 \<le> v2 \<longrightarrow> hal_battery_voltage_to_percentage v1 \<le> hal_battery_voltage_to_percentage v2)
   \<and> hal_battery_percentage_to_state (hal_battery_voltage_to_percentage v)
       \<noteq> HAL_BATTERY_STATE_UNKNOWN"
proof -
  have range: "0 \<le> uint (hal_battery_voltage_to_percentage v)"
      "uint (hal_battery_voltage_to_percentage v) \<le> 100"
    using percentage_int_range [of "uint v"] by (simp_all add: percentage_closed_form)
  have mono: "hal_battery_voltage_to_percentage v1 \<le> hal_battery_voltage_to_percentage v2"
    if "v1 \<le> v2"
  proof -
    from that have "uint v1 \<le> uint v2" by (simp add: word_le_def)
    then have "percentage_int (uint v1) \<le> percentage_int (uint v2)"
      by (rule percentage_int_mono)
    then show ?thesis by (simp add: word_le_def percentage_closed_form)
  qed
  from range mono percentage_to_state_not_unknown show ?thesis by blast
qed

theorem percentage_bounded_monotone_witness:
  "(2350 :: 16 word) \<le> 2900
   \<and> hal_battery_voltage_to_percentage 2350 \<le> hal_battery_voltage_to_percentage 2900
   \<and> uint (hal_battery_voltage_to_percentage 2900) \<le> 100
   \<and> hal_battery_percentage_to_state (hal_battery_voltage_to_percentage 2900)
       = HAL_BATTERY_STATE_GOOD"
proof -
  have le: "(2350 :: 16 word) \<le> 2900" by simp
  have st: "hal_battery_percentage_to_state (hal_battery_voltage_to_percentage 2900)
      = HAL_BATTERY_STATE_GOOD"
    by (simp add: hal_battery_voltage_to_percentage_def linear_interpolate_def sdiv_nonneg
        hal_battery_percentage_to_state_def)
  from le st percentage_bounded_monotone [of 2900 2350 2900] show ?thesis by simp
qed

section \<open>Battery gauge: sampling\<close>

lemma sint16_of_int:
  "- (2 ^ 15) \<le> a \<Longrightarrow> a < 2 ^ 15 \<Longrightarrow> sint (word_of_int a :: 16 word) = a"
  by (simp add: sint_sbintrunc' signed_take_bit_int_eq_self)

lemma sint32_of_int:
  "- (2 ^ 31) \<le> a \<Longrightarrow> a < 2 ^ 31 \<Longrightarrow> sint (word_of_int a :: 32 word) = a"
  by (simp add: sint_sbintrunc' signed_take_bit_int_eq_self)

lemma uint32_of_int:
  "0 \<le> p \<Longrightarrow> p < 2 ^ 32 \<Longrightarrow> uint (word_of_int p :: 32 word) = p"
  by (simp add: uint_word_of_int)

lemma adc_raw_to_mv_truncates:
  assumes "0 \<le> a" "a \<le> 4095"
  shows "uint (adc_raw_to_mv (word_of_int a)) = truncated_voltage_mv a"
proof -
  have s16: "sint (word_of_int a :: 16 word) = a"
    using assms by (intro sint16_of_int) simp_all
  have sc: "(scast (word_of_int a :: 16 word) :: 32 word) = word_of_int a"
    by (simp add: scast_eq s16)
  have prod: "(word_of_int a :: 32 word) * 3600 = word_of_int (a * 3600)"
    by simp
  have "0 \<le> a * 3600" "a * 3600 < 2 ^ 32" using assms by simp_all
  then have up: "uint (word_of_int (a * 3600) :: 32 word) = a * 3600"
    by (rule uint32_of_int)
  have "uint ((word_of_int (a * 3600) :: 32 word) div 4095)
      = uint (word_of_int (a * 3600) :: 32 word) div uint (4095 :: 32 word)"
    by (rule uint_div)
  then have q: "uint ((word_of_int (a * 3600) :: 32 word) div 4095) = a * 3600 div 4095"
    unfolding up by simp
  have qb: "0 \<le> a * 3600 div 4095 \<and> a * 3600 div 4095 \<le> 3600"
    using assms div_bounds [of "a * 3600" 4095 3600] by simp
  have "uint (ucast ((word_of_int (a * 3600) :: 32 word) div 4095) :: 16 word)
      = uint ((word_of_int (a * 3600) :: 32 word) div 4095) mod 2 ^ 16"
    by (simp add: unsigned_ucast_eq take_bit_eq_mod)
  also have "\<dots> = a * 3600 div 4095"
    unfolding q using qb by simp
  finally have "uint (ucast ((word_of_int a :: 32 word) * 3600 div 4095) :: 16 word)
      = a * 3600 div 4095"
    unfolding prod .
  then show ?thesis
    by (simp add: adc_raw_to_mv_def Let_def sc truncated_voltage_mv_def)
qed


lemma valid_samples_of_Cons:
  "valid_samples_of (r # rest) =
     (if sample_valid r then sint (snd r) # valid_samples_of rest else valid_samples_of rest)"
  by (simp add: valid_samples_of_def)

lemma oversampling_loop_sums:
  "oversampling_loop reads (s, n) =
     (s + word_of_int (sum_list (valid_samples_of reads)),
      n + of_nat (length (valid_samples_of reads)))"
proof (induction reads arbitrary: s n)
  case Nil
  show ?case by (simp add: valid_samples_of_def)
next
  case (Cons r rest)
  obtain ret raw where r: "r = (ret, raw)" by (cases r)
  show ?case
  proof (cases "sample_valid r")
    case True
    then have "oversampling_loop (r # rest) (s, n)
        = oversampling_loop rest (s + scast raw, n + 1)"
      by (simp add: r sample_valid_def)
    then show ?thesis
      using True by (simp add: Cons.IH valid_samples_of_Cons r)
  next
    case False
    then have "oversampling_loop (r # rest) (s, n) = oversampling_loop rest (s, n)"
      by (auto simp: r sample_valid_def)
    then show ?thesis
      using False by (simp add: Cons.IH valid_samples_of_Cons)
  qed
qed

lemma valid_samples_bounds:
  "x \<in> set (valid_samples_of reads) \<Longrightarrow> 0 \<le> x \<and> x \<le> 4095"
  by (auto simp: valid_samples_of_def sample_valid_def)

lemma sum_list_bounds:
  fixes xs :: "int list"
  assumes "\<And>x. x \<in> set xs \<Longrightarrow> 0 \<le> x \<and> x \<le> 4095"
  shows "0 \<le> sum_list xs \<and> sum_list xs \<le> 4095 * int (length xs)"
  using assms
proof (induction xs)
  case Nil
  show ?case by simp
next
  case (Cons a xs)
  have a: "0 \<le> a \<and> a \<le> 4095" using Cons.prems [of a] by simp
  have "0 \<le> sum_list xs \<and> sum_list xs \<le> 4095 * int (length xs)"
    using Cons.prems by (intro Cons.IH) simp
  with a show ?case by simp
qed

lemma valid_samples_length: "length (valid_samples_of reads) \<le> length reads"
  by (simp add: valid_samples_of_def)

lemma truncated_voltage_mv_bounds:
  "0 \<le> a \<Longrightarrow> a \<le> 4095 \<Longrightarrow> 0 \<le> truncated_voltage_mv a \<and> truncated_voltage_mv a \<le> 3600"
  using div_bounds [of "a * 3600" 4095 3600] by (simp add: truncated_voltage_mv_def)

lemma average_raw_valid_bounds:
  assumes "valid_samples_of reads \<noteq> []"
  shows "0 \<le> average_raw (valid_samples_of reads)
    \<and> average_raw (valid_samples_of reads) \<le> 4095"
proof -
  have "0 \<le> sum_list (valid_samples_of reads)
      \<and> sum_list (valid_samples_of reads) \<le> 4095 * int (length (valid_samples_of reads))"
    by (rule sum_list_bounds) (rule valid_samples_bounds)
  moreover have "0 < int (length (valid_samples_of reads))" using assms by simp
  ultimately show ?thesis
    using div_bounds [of "sum_list (valid_samples_of reads)"
        "int (length (valid_samples_of reads))" 4095]
    by (simp add: average_raw_def mult.commute)
qed

text \<open>
  What \<open>adc_read_with_oversampling\<close> returns for four driver answers: the word
  arithmetic never wraps, because at most four samples of at most 4095 are added.
\<close>

lemma adc_read_with_oversampling_result:
  assumes "length reads = ADC_SAMPLES"
  shows "adc_read_with_oversampling reads =
           (if valid_samples_of reads = [] then Inl EIO
            else Inr (word_of_int (truncated_voltage_mv (average_raw (valid_samples_of reads)))))"
proof -
  define vs where "vs = valid_samples_of reads"
  define S where "S = sum_list vs"
  define N where "N = length vs"
  have N4: "N \<le> 4"
    using valid_samples_length [of reads] assms by (simp add: N_def vs_def)
  have Sb: "0 \<le> S \<and> S \<le> 4095 * int N"
    unfolding S_def N_def vs_def by (rule sum_list_bounds) (rule valid_samples_bounds)
  have loop: "oversampling_loop (take ADC_SAMPLES reads) (0, 0) = (word_of_int S, of_nat N)"
    using assms by (simp add: oversampling_loop_sums S_def N_def vs_def)
  have zero: "((of_nat N :: 8 word) = 0) = (vs = [])"
  proof -
    have "((of_nat N :: 8 word) = 0) = (256 dvd N)"
      by (simp add: word_of_nat_eq_0_iff)
    moreover have "(256 dvd N) = (N = 0)"
    proof
      assume "256 dvd N"
      show "N = 0"
      proof (rule ccontr)
        assume "N \<noteq> 0"
        then have "256 \<le> N" using \<open>256 dvd N\<close> by (intro dvd_imp_le) simp_all
        then show False using N4 by simp
      qed
    qed simp
    moreover have "(N = 0) = (vs = [])" by (simp add: N_def)
    ultimately show ?thesis by simp
  qed
  show ?thesis
  proof (cases "vs = []")
    case True
    then show ?thesis
      using zero by (simp add: adc_read_with_oversampling_def loop vs_def)
  next
    case False
    then have Npos: "0 < N" by (simp add: N_def)
    have sS: "sint (word_of_int S :: 32 word) = S"
      using Sb N4 by (intro sint32_of_int) simp_all
    have "unat (of_nat N :: 8 word) = N"
      using N4 by (simp add: unat_of_nat)
    then have uN: "uint (of_nat N :: 8 word) = int N"
      by (simp only: uint_nat)
    have quot: "S sdiv int N = average_raw vs"
      using Sb Npos by (simp add: sdiv_nonneg average_raw_def S_def N_def)
    have Ab: "0 \<le> average_raw vs \<and> average_raw vs \<le> 4095"
      using div_bounds [of S "int N" 4095] Sb Npos
      by (simp add: average_raw_def S_def N_def mult.commute)
    have "uint (adc_raw_to_mv (word_of_int (average_raw vs)))
        = truncated_voltage_mv (average_raw vs)"
      using Ab by (intro adc_raw_to_mv_truncates) simp_all
    then have conv: "adc_raw_to_mv (word_of_int (average_raw vs))
        = word_of_int (truncated_voltage_mv (average_raw vs))"
      by (metis word_of_int_uint)
    show ?thesis
      using False zero
      by (simp add: adc_read_with_oversampling_def loop sS uN quot conv vs_def [symmetric])
  qed
qed


text \<open>
  C6 (as amended). For every sequence of 4 sample outcomes, on an initialised gauge:
  a sample is discarded when its acquisition failed or when it lies outside
  \<open>[0, 2 ^ 12 - 1]\<close>; the reading fails with \<open>HAL_BATTERY_ERROR_READ\<close> if and only if no
  valid sample remains; otherwise it returns
  \<open>voltage_mv = (avg_raw * 3600) div (2 ^ 12 - 1)\<close>, the quotient truncated (not rounded
  to the nearest integer), where \<open>avg_raw\<close> is the integer average of the valid samples
  and the divider ratio is 1; the result lies in \<open>[0, 3600]\<close>.
\<close>

theorem battery_reading_truncates:
  assumes "length reads = ADC_SAMPLES" and "initialized_battery s"
  shows "(hal_battery_read_voltage True reads s = Inl HAL_BATTERY_ERROR_READ)
           = (valid_samples_of reads = [])
    \<and> (valid_samples_of reads \<noteq> [] \<longrightarrow>
         hal_battery_read_voltage True reads s
           = Inr (word_of_int (truncated_voltage_mv (average_raw (valid_samples_of reads))))
         \<and> 0 \<le> truncated_voltage_mv (average_raw (valid_samples_of reads))
         \<and> truncated_voltage_mv (average_raw (valid_samples_of reads)) \<le> 3600)"
proof -
  have read: "hal_battery_read_voltage True reads s =
      (if valid_samples_of reads = [] then Inl HAL_BATTERY_ERROR_READ
       else Inr (word_of_int (truncated_voltage_mv (average_raw (valid_samples_of reads)))))"
    using assms by (simp add: hal_battery_read_voltage_def adc_read_with_oversampling_result)
  have bounds: "0 \<le> truncated_voltage_mv (average_raw (valid_samples_of reads))
      \<and> truncated_voltage_mv (average_raw (valid_samples_of reads)) \<le> 3600"
    if "valid_samples_of reads \<noteq> []"
    using average_raw_valid_bounds [OF that] by (intro truncated_voltage_mv_bounds) simp_all
  from read bounds show ?thesis by simp
qed

lemma samples_with_rejects:
  "valid_samples_of [(- 5, 0), (0, 5000), (0, 3412), (0, 3413)] = [3412, 3413]"
  by (simp add: valid_samples_of_def sample_valid_def)

theorem battery_reading_truncates_witness:
  "length [(- 5, 0), (0, 5000), (0, 3412), (0, 3413 :: 16 word)] = ADC_SAMPLES
   \<and> initialized_battery battery_ready
   \<and> valid_samples_of [(- 5, 0), (0, 5000), (0, 3412), (0, 3413)] = [3412, 3413]
   \<and> hal_battery_read_voltage True [(- 5, 0), (0, 5000), (0, 3412), (0, 3413)] battery_ready
       = Inr 2999"
proof -
  have len: "length [(- 5 :: int, 0), (0, 5000), (0, 3412), (0, 3413 :: 16 word)] = ADC_SAMPLES"
    by simp
  have ini: "initialized_battery battery_ready"
    by (simp add: battery_ready_def)
  from battery_reading_truncates [OF len ini] show ?thesis
    by (simp add: samples_with_rejects average_raw_def truncated_voltage_mv_def ini)
qed

text \<open>
  With \<open>round\<close>, as the specification words the conversion, C6 fails: four samples of
  3412 average to 3412, and \<open>3412 * 3600 / 4095 = 2999.56...\<close>; the C code returns
  2999 mV where rounding gives 3000 mV.
\<close>

lemma samples_3412:
  "valid_samples_of [(0, 3412), (0, 3412), (0, 3412), (0, 3412)] = [3412, 3412, 3412, 3412]"
  by (simp add: valid_samples_of_def sample_valid_def)

theorem battery_reading_round_counterexample:
  "hal_battery_read_voltage True [(0, 3412), (0, 3412), (0, 3412), (0, 3412)] battery_ready
     = Inr 2999
   \<and> spec_reading [(0, 3412), (0, 3412), (0, 3412), (0, 3412)] = Inr 3000
   \<and> hal_battery_read_voltage True [(0, 3412), (0, 3412), (0, 3412), (0, 3412)] battery_ready
     \<noteq> spec_reading [(0, 3412), (0, 3412), (0, 3412), (0, 3412)]"
proof -
  have code: "hal_battery_read_voltage True [(0, 3412), (0, 3412), (0, 3412), (0, 3412)]
      battery_ready = Inr 2999"
    by (simp add: hal_battery_read_voltage_def battery_ready_def battery_power_on_def
        adc_read_with_oversampling_result samples_3412 average_raw_def truncated_voltage_mv_def)
  have spec: "spec_reading [(0, 3412), (0, 3412), (0, 3412), (0, 3412)] = Inr 3000"
    by (simp add: spec_reading_def samples_3412 average_raw_def spec_voltage_mv_def round_def)
  show ?thesis unfolding code spec by simp
qed

section \<open>Buzzer pattern engine\<close>

lemma stop_intermittent_result:
  "stop_intermittent b =
     b\<lparr>pattern_intermittent_active := False, pattern_intermittent_work := WORK_IDLE,
       pwm_period_ns := PWM_PERIOD_NS, pwm_pulse_ns := 0\<rparr>"
  by (simp add: stop_intermittent_def pwm_set_intensity_def pwm_set_dt_def
      intensity_to_pulse_ns_def k_work_cancel_delayable_def)


lemma intensity_to_pulse_ns_0: "intensity_to_pulse_ns 0 = 0"
  by (simp add: intensity_to_pulse_ns_def)

lemma pwm_set_intensity_0:
  "pwm_set_intensity 0 b = b\<lparr>pwm_period_ns := PWM_PERIOD_NS, pwm_pulse_ns := 0\<rparr>"
  by (simp add: pwm_set_intensity_def pwm_set_dt_def intensity_to_pulse_ns_0)

lemma pwm_set_intensity_fields:
  "initialized_buzzer (pwm_set_intensity i b) = initialized_buzzer b"
  "pattern_intermittent_active (pwm_set_intensity i b) = pattern_intermittent_active b"
  "pattern_intermittent_work (pwm_set_intensity i b) = pattern_intermittent_work b"
  "handler_state (pwm_set_intensity i b) = handler_state b"
  "current_intensity (pwm_set_intensity i b) = current_intensity b"
  by (simp_all add: pwm_set_intensity_def pwm_set_dt_def)


lemma handler_keeps_invariant:
  "output_off_when_inactive (pattern_intermittent_handler b)"
  by (simp add: output_off_when_inactive_def pattern_intermittent_handler_def
      pwm_set_intensity_0 pwm_set_intensity_fields Let_def)

lemma work_expires_keeps_invariant:
  "output_off_when_inactive b \<Longrightarrow> output_off_when_inactive (pattern_work_expires b)"
  by (cases "pattern_intermittent_work b")
     (simp_all add: pattern_work_expires_def handler_keeps_invariant)

lemma set_intermittent_keeps_invariant:
  "output_off_when_inactive b \<Longrightarrow>
   output_off_when_inactive (snd (hal_buzzer_set_intermittent active intensity b))"
  by (simp add: hal_buzzer_set_intermittent_def stop_intermittent_result
      output_off_when_inactive_def)

lemma init_keeps_invariant:
  "output_off_when_inactive b \<Longrightarrow>
   output_off_when_inactive (snd (hal_buzzer_init device_ready pwm_ret b))"
  by (simp add: hal_buzzer_init_def pwm_set_intensity_0 output_off_when_inactive_def Let_def)

lemma buzzer_step_keeps_invariant:
  "output_off_when_inactive b \<Longrightarrow> output_off_when_inactive (buzzer_step b e)"
  by (cases e)
     (simp_all add: init_keeps_invariant set_intermittent_keeps_invariant
        work_expires_keeps_invariant)

lemma foldl_buzzer_step_invariant:
  "output_off_when_inactive b \<Longrightarrow> output_off_when_inactive (foldl buzzer_step b events)"
  by (induction events arbitrary: b) (simp_all add: buzzer_step_keeps_invariant)

lemma buzzer_run_invariant: "output_off_when_inactive (buzzer_run events)"
  unfolding buzzer_run_def
  by (rule foldl_buzzer_step_invariant) (simp add: output_off_when_inactive_def buzzer_power_on_def)

lemma work_expires_keeps_initialized:
  "initialized_buzzer (pattern_work_expires b) = initialized_buzzer b"
  by (cases "pattern_intermittent_work b")
     (simp_all add: pattern_work_expires_def pattern_intermittent_handler_def
        pwm_set_intensity_fields Let_def)

lemma work_expires_pow_keeps_initialized:
  "initialized_buzzer ((pattern_work_expires ^^ k) b) = initialized_buzzer b"
  by (induction k) (simp_all add: work_expires_keeps_initialized)

lemma idle_work_never_fires:
  "pattern_intermittent_work b = WORK_IDLE \<Longrightarrow> (pattern_work_expires ^^ m) b = b"
  by (induction m) (simp_all add: pattern_work_expires_def)

lemma on_then_off_result:
  assumes "initialized_buzzer b"
  shows "fst (hal_buzzer_set_intermittent True 50 b) = HAL_BUZZER_SUCCESS"
    and "fst (hal_buzzer_set_intermittent False 0
           ((pattern_work_expires ^^ k) (snd (hal_buzzer_set_intermittent True 50 b))))
         = HAL_BUZZER_SUCCESS"
    and "pattern_intermittent_work (on_then_off k b) = WORK_IDLE"
    and "pwm_pulse_ns (on_then_off k b) = 0"
    and "\<not> pattern_intermittent_active (on_then_off k b)"
    and "(pattern_work_expires ^^ m) (on_then_off k b) = on_then_off k b"
proof -
  define b1 where "b1 = snd (hal_buzzer_set_intermittent True 50 b)"
  define b2 where "b2 = (pattern_work_expires ^^ k) b1"
  have i1: "initialized_buzzer b1"
    using assms by (simp add: b1_def hal_buzzer_set_intermittent_def)
  have i2: "initialized_buzzer b2"
    using i1 by (simp add: b2_def work_expires_pow_keeps_initialized)
  show "fst (hal_buzzer_set_intermittent True 50 b) = HAL_BUZZER_SUCCESS"
    using assms by (simp add: hal_buzzer_set_intermittent_def)
  show "fst (hal_buzzer_set_intermittent False 0
           ((pattern_work_expires ^^ k) (snd (hal_buzzer_set_intermittent True 50 b))))
         = HAL_BUZZER_SUCCESS"
    using i2 by (simp add: b1_def b2_def hal_buzzer_set_intermittent_def)
  have off: "on_then_off k b = stop_intermittent b2"
    using i2 by (simp add: on_then_off_def b1_def b2_def hal_buzzer_set_intermittent_def)
  show idle: "pattern_intermittent_work (on_then_off k b) = WORK_IDLE"
    by (simp add: off stop_intermittent_result)
  show "pwm_pulse_ns (on_then_off k b) = 0"
    by (simp add: off stop_intermittent_result)
  show "\<not> pattern_intermittent_active (on_then_off k b)"
    by (simp add: off stop_intermittent_result)
  show "(pattern_work_expires ^^ m) (on_then_off k b) = on_then_off k b"
    using idle by (rule idle_work_never_fires)
qed


text \<open>
  C5. In every reachable state of the buzzer engine (every state that a list of calls
  of the two public functions and of expiries of the work item leads to from power-on)
  the PWM output is 0 whenever the intermittent pattern is inactive. In particular, on
  an initialised engine, \<open>setIntermittent(true, 50)\<close> followed, after any number \<open>k\<close> of
  expiries, by \<open>setIntermittent(false, 0)\<close>: both calls succeed, the periodic work is
  cancelled, the output is 0, the pattern is inactive, and any number \<open>m\<close> of later
  scheduler steps changes nothing, so no further toggle occurs. The handler of the work
  item is taken as one atomic step.
\<close>

theorem buzzer_output_off_when_inactive:
  "(\<not> pattern_intermittent_active (buzzer_run events) \<longrightarrow> pwm_pulse_ns (buzzer_run events) = 0)
   \<and> (initialized_buzzer b \<longrightarrow>
        fst (hal_buzzer_set_intermittent True 50 b) = HAL_BUZZER_SUCCESS
        \<and> fst (hal_buzzer_set_intermittent False 0
              ((pattern_work_expires ^^ k) (snd (hal_buzzer_set_intermittent True 50 b))))
            = HAL_BUZZER_SUCCESS
        \<and> pattern_intermittent_work (on_then_off k b) = WORK_IDLE
        \<and> pwm_pulse_ns (on_then_off k b) = 0
        \<and> \<not> pattern_intermittent_active (on_then_off k b)
        \<and> (pattern_work_expires ^^ m) (on_then_off k b) = on_then_off k b)"
  using buzzer_run_invariant [of events]
  by (simp add: output_off_when_inactive_def on_then_off_result)

lemma buzzer_after_init:
  "snd (hal_buzzer_init True 0 buzzer_power_on) =
     \<lparr>initialized_buzzer = True,
      current_intensity = HAL_BUZZER_INTENSITY_MEDIUM,
      pattern_intermittent_work = WORK_IDLE,
      pattern_intermittent_active = False,
      handler_state = False,
      pwm_period_ns = PWM_PERIOD_NS,
      pwm_pulse_ns = 0\<rparr>"
  by (simp add: hal_buzzer_init_def buzzer_power_on_def pwm_set_intensity_def pwm_set_dt_def
      intensity_to_pulse_ns_def)

lemma run_alarm_on:
  "buzzer_run [CALL_INIT True 0, CALL_SET_INTERMITTENT True 50, WORK_EXPIRES] =
     \<lparr>initialized_buzzer = True,
      current_intensity = 50,
      pattern_intermittent_work = WORK_SCHEDULED 500,
      pattern_intermittent_active = True,
      handler_state = True,
      pwm_period_ns = 20000000,
      pwm_pulse_ns = 10000000\<rparr>"
  by (simp add: buzzer_run_def buzzer_power_on_def hal_buzzer_init_def
      hal_buzzer_set_intermittent_def pattern_work_expires_def pattern_intermittent_handler_def
      pwm_set_intensity_def pwm_set_dt_def intensity_to_pulse_ns_def k_work_schedule_def Let_def)

lemma run_alarm_off:
  "buzzer_run [CALL_INIT True 0, CALL_SET_INTERMITTENT True 50, WORK_EXPIRES,
               CALL_SET_INTERMITTENT False 0] =
     \<lparr>initialized_buzzer = True,
      current_intensity = 50,
      pattern_intermittent_work = WORK_IDLE,
      pattern_intermittent_active = False,
      handler_state = True,
      pwm_period_ns = 20000000,
      pwm_pulse_ns = 0\<rparr>"
proof -
  have "buzzer_run [CALL_INIT True 0, CALL_SET_INTERMITTENT True 50, WORK_EXPIRES,
               CALL_SET_INTERMITTENT False 0]
      = buzzer_step (buzzer_run [CALL_INIT True 0, CALL_SET_INTERMITTENT True 50, WORK_EXPIRES])
          (CALL_SET_INTERMITTENT False 0)"
    by (simp add: buzzer_run_def)
  then show ?thesis
    unfolding run_alarm_on
    by (simp add: hal_buzzer_set_intermittent_def stop_intermittent_result)
qed

theorem buzzer_output_off_when_inactive_witness:
  "pattern_intermittent_active
      (buzzer_run [CALL_INIT True 0, CALL_SET_INTERMITTENT True 50, WORK_EXPIRES])
   \<and> pwm_pulse_ns (buzzer_run [CALL_INIT True 0, CALL_SET_INTERMITTENT True 50, WORK_EXPIRES])
       = 10000000
   \<and> \<not> pattern_intermittent_active
      (buzzer_run [CALL_INIT True 0, CALL_SET_INTERMITTENT True 50, WORK_EXPIRES,
                   CALL_SET_INTERMITTENT False 0])
   \<and> pwm_pulse_ns
      (buzzer_run [CALL_INIT True 0, CALL_SET_INTERMITTENT True 50, WORK_EXPIRES,
                   CALL_SET_INTERMITTENT False 0]) = 0
   \<and> initialized_buzzer (snd (hal_buzzer_init True 0 buzzer_power_on))
   \<and> pwm_pulse_ns (on_then_off 1 (snd (hal_buzzer_init True 0 buzzer_power_on))) = 0
   \<and> (pattern_work_expires ^^ 2) (on_then_off 1 (snd (hal_buzzer_init True 0 buzzer_power_on)))
       = on_then_off 1 (snd (hal_buzzer_init True 0 buzzer_power_on))"
proof -
  have ini: "initialized_buzzer (snd (hal_buzzer_init True 0 buzzer_power_on))"
    by (simp add: buzzer_after_init)
  from ini
    buzzer_output_off_when_inactive [where b = "snd (hal_buzzer_init True 0 buzzer_power_on)"
      and k = 1 and m = 2
      and events = "[CALL_INIT True 0, CALL_SET_INTERMITTENT True 50, WORK_EXPIRES,
                     CALL_SET_INTERMITTENT False 0]"]
  show ?thesis
    by (simp add: run_alarm_on run_alarm_off)
qed

section \<open>Concrete states of the firmware\<close>

text \<open>
  The states that the start-up of \<open>main\<close>, the first run of the advertising work and
  a successful connection lead to.
\<close>

lemma ble_after_init:
  "snd (hal_ble_init (Some ''Amigo Perto'') (Some ble_callbacks) 0 ble_power_on) =
     \<lparr>initialized_ble = True,
      current_state = HAL_BLE_STATE_READY,
      user_callbacks = ble_callbacks,
      device_name = ''Amigo Perto'',
      current_conn = None,
      adv_work = False,
      ad_data = [\<lparr>data_type = BT_DATA_FLAGS, data_len = 1, data_bytes = [0x06]\<rparr>,
                 \<lparr>data_type = BT_DATA_NAME_COMPLETE, data_len = 11,
                  data_bytes = map of_char ''Amigo Perto''\<rparr>],
      sd_data = [\<lparr>data_type = BT_DATA_UUID128_ALL, data_len = 16,
                  data_bytes = buzzer_uuid_val\<rparr>],
      adv_param = None,
      bt_calls = [BT_ENABLE, BT_CONN_CB_REGISTER, K_WORK_INIT]\<rparr>"
  by (simp add: hal_ble_init_def ble_power_on_def bt_call_def prepare_adv_data_def Let_def)

lemma started_fields:
  "initialized_ble (ble (firmware_started ''Amigo Perto''))"
  "current_state (ble (firmware_started ''Amigo Perto'')) = HAL_BLE_STATE_READY"
  "adv_work (ble (firmware_started ''Amigo Perto''))"
  "current_conn (ble (firmware_started ''Amigo Perto'')) = None"
  "user_callbacks (ble (firmware_started ''Amigo Perto'')) = ble_callbacks"
  "bt_calls (ble (firmware_started ''Amigo Perto''))
     = [BT_ENABLE, BT_CONN_CB_REGISTER, K_WORK_INIT, K_WORK_SUBMIT]"
  "buzzer_cb (firmware_started ''Amigo Perto'') = buzzer_callbacks"
  "initialized_buzzer (buzzer (app (firmware_started ''Amigo Perto'')))"
  "bas (firmware_started ''Amigo Perto'') = bas_power_on"
  by (simp_all add: firmware_started_def firmware_power_on_def app_power_on_def
      buzzer_after_init ble_after_init hal_ble_start_advertising_def main_adv_params_def
      k_work_submit_def bt_call_def gatt_buzzer_service_init_def buzzer_callbacks_def
      buzzer_cb_power_on_def Let_def)

lemma advertising_fields:
  "initialized_ble (ble firmware_advertising)"
  "current_state (ble firmware_advertising) = HAL_BLE_STATE_ADVERTISING"
  "\<not> adv_work (ble firmware_advertising)"
  "current_conn (ble firmware_advertising) = None"
  "user_callbacks (ble firmware_advertising) = ble_callbacks"
  "buzzer_cb firmware_advertising = buzzer_callbacks"
  "initialized_buzzer (buzzer (app firmware_advertising))"
  "led_azul (app firmware_advertising)"
  "bas firmware_advertising = bas_power_on"
  "conn_unref_count (ble firmware_advertising) = 0"
  by (simp_all add: firmware_advertising_def adv_work_event_def adv_work_runs_def
      adv_work_handler_def started_fields bt_call_def Let_def ble_callbacks_def
      on_ble_adv_started_def case_prod_beta conn_unref_count_def)

lemma ready_fields:
  "initialized_ble (snd (hal_ble_init (Some ''Amigo Perto'') (Some ble_callbacks) 0 ble_power_on))"
  "current_state (snd (hal_ble_init (Some ''Amigo Perto'') (Some ble_callbacks) 0 ble_power_on))
     = HAL_BLE_STATE_READY"
  by (simp_all add: ble_after_init)

lemma connected_fields:
  "initialized_ble (ble firmware_connected)"
  "current_state (ble firmware_connected) = HAL_BLE_STATE_CONNECTED"
  "current_conn (ble firmware_connected) = Some 1"
  "user_callbacks (ble firmware_connected) = ble_callbacks"
  "\<not> adv_work (ble firmware_connected)"
  "initialized_buzzer (buzzer (app firmware_connected))"
  "current_conn_bas (bas firmware_connected) = Some 1"
  "buzzer_cb firmware_connected = buzzer_callbacks"
  "conn_unref_count (ble firmware_connected) = conn_unref_count (ble firmware_advertising)"
  by (simp_all add: firmware_connected_def bt_connected_event_def on_connected_def
      advertising_fields(1-9) bt_call_def Let_def ble_callbacks_def on_ble_connected_def
      connected_cb_def case_prod_beta conn_unref_count_def)


lemma main_adv_params_valid: "adv_config_valid main_adv_params"
  by (simp add: adv_config_valid_def main_adv_params_def)

lemma short_interval_invalid:
  "\<not> adv_config_valid \<lparr>interval_min_ms = 10, interval_max_ms = 10,
       connectable = True, use_identity = True\<rparr>"
  by (simp add: adv_config_valid_def)


lemma alarming_fields:
  "current_state (ble firmware_alarming) = HAL_BLE_STATE_CONNECTED"
  "current_conn (ble firmware_alarming) = Some 1"
  "cb_disconnected (user_callbacks (ble firmware_alarming)) = Some on_ble_disconnected"
  "initialized_buzzer (buzzer (app firmware_alarming))"
  "pattern_intermittent_active (buzzer (app firmware_alarming))"
  "notify_enabled (bas firmware_alarming)"
  "conn_unref_count (ble firmware_alarming) = 0"
  by (simp_all add: firmware_alarming_def gatt_write_event_def write_buzzer_intermittent_def
      connected_fields buzzer_callbacks_def on_buzzer_intermittent_write_def
      hal_buzzer_set_intermittent_def battery_level_ccc_changed_def ble_callbacks_def
      case_prod_beta Let_def advertising_fields(10))


section \<open>Buzzer GATT service\<close>




section \<open>Connectivity manager: connect and disconnect events\<close>

lemma on_connected_error:
  "err \<noteq> 0 \<Longrightarrow> on_connected conn err info b a = (k_work_submit b, a)"
  by (simp add: on_connected_def)

lemma connected_event_error:
  "err \<noteq> 0 \<Longrightarrow> bt_connected_event conn err info f = f\<lparr>ble := k_work_submit (ble f)\<rparr>"
  by (simp add: bt_connected_event_def on_connected_error connected_cb_def)

lemma connected_event_error_pow:
  "err \<noteq> 0 \<Longrightarrow>
   bt_calls (ble ((bt_connected_event conn err info ^^ n) f))
     = bt_calls (ble f) @ replicate n K_WORK_SUBMIT"
proof (induction n)
  case 0
  show ?case by simp
next
  case (Suc n)
  then show ?case
    by (simp add: connected_event_error k_work_submit_def bt_call_def replicate_append_same)
qed

text \<open>
  C3 (as amended). For every connect event delivered with a nonzero error code, in
  every state: the handler submits the advertising work item once (so \<open>n\<close> such events
  submit it \<open>n\<close> times: there is no back-off and no limit), acquires no connection
  reference, and leaves the state of the connectivity manager as it was; the
  application and the battery service are not touched. The state is therefore Ready
  afterwards only if it was Ready before.
\<close>

theorem connect_error_requeues_advertising:
  assumes "err \<noteq> 0"
  shows
   "adv_work (ble (bt_connected_event conn err info f))
    \<and> bt_calls (ble (bt_connected_event conn err info f)) = bt_calls (ble f) @ [K_WORK_SUBMIT]
    \<and> bt_calls (ble ((bt_connected_event conn err info ^^ n) f))
        = bt_calls (ble f) @ replicate n K_WORK_SUBMIT
    \<and> current_conn (ble (bt_connected_event conn err info f)) = current_conn (ble f)
    \<and> current_state (ble (bt_connected_event conn err info f)) = current_state (ble f)
    \<and> app (bt_connected_event conn err info f) = app f
    \<and> bas (bt_connected_event conn err info f) = bas f"
  using assms connected_event_error_pow [OF assms, where conn = conn and info = info and n = n and f = f]
  by (simp add: connected_event_error k_work_submit_def bt_call_def)

theorem connect_error_requeues_advertising_witness:
  "(62 :: 8 word) \<noteq> 0
   \<and> current_state (ble (firmware_started ''Amigo Perto'')) = HAL_BLE_STATE_READY
   \<and> current_state (ble (bt_connected_event 1 62 None (firmware_started ''Amigo Perto'')))
       = HAL_BLE_STATE_READY
   \<and> adv_work (ble (bt_connected_event 1 62 None (firmware_started ''Amigo Perto'')))
   \<and> current_conn (ble (bt_connected_event 1 62 None (firmware_started ''Amigo Perto''))) = None
   \<and> bt_calls (ble ((bt_connected_event 1 62 None ^^ 3) (firmware_started ''Amigo Perto'')))
       = [BT_ENABLE, BT_CONN_CB_REGISTER, K_WORK_INIT, K_WORK_SUBMIT,
          K_WORK_SUBMIT, K_WORK_SUBMIT, K_WORK_SUBMIT]"
proof -
  have e: "(62 :: 8 word) \<noteq> 0" by simp
  from connect_error_requeues_advertising [OF e, where conn = 1 and info = None
      and f = "firmware_started ''Amigo Perto''" and n = 3]
  show ?thesis
    by (simp add: started_fields numeral_3_eq_3)
qed

text \<open>
  C3 as the specification words it has the state remain at or revert to Ready. A
  failed connection attempt that arrives while the device advertises leaves the state
  at Advertising.
\<close>

theorem connect_error_state_counterexample:
  "current_state (ble firmware_advertising) = HAL_BLE_STATE_ADVERTISING
   \<and> current_state (ble (bt_connected_event 1 62 None firmware_advertising))
       = HAL_BLE_STATE_ADVERTISING
   \<and> current_state (ble (bt_connected_event 1 62 None firmware_advertising))
       \<noteq> HAL_BLE_STATE_READY"
  by (simp add: bt_connected_event_def on_connected_def connected_cb_def k_work_submit_def
      bt_call_def advertising_fields)

lemma on_disconnected_ble:
  "fst (on_disconnected conn reason b a) =
     (case current_conn b of
        Some c \<Rightarrow> b\<lparr>bt_calls := bt_calls b @ [BT_CONN_UNREF c], current_conn := None,
                    current_state := HAL_BLE_STATE_READY\<rparr>
      | None \<Rightarrow> b\<lparr>current_state := HAL_BLE_STATE_READY\<rparr>)"
  by (simp add: on_disconnected_def bt_call_def Let_def split: option.splits)

lemma on_disconnected_app:
  "snd (on_disconnected conn reason b a) =
     (case cb_disconnected (user_callbacks b) of Some cb \<Rightarrow> cb reason a | None \<Rightarrow> a)"
  by (simp add: on_disconnected_def bt_call_def Let_def split: option.splits)

lemma disconnected_event_parts:
  "ble (bt_disconnected_event conn reason f) = fst (on_disconnected conn reason (ble f) (app f))"
  "app (bt_disconnected_event conn reason f) = snd (on_disconnected conn reason (ble f) (app f))"
  "bas (bt_disconnected_event conn reason f) = disconnected_cb conn reason (bas f)"
  by (simp_all add: bt_disconnected_event_def case_prod_beta)

text \<open>
  What a disconnect event does in any state whatever: the manager is Ready and its slot
  empty, the reference that the slot held is released (nothing is released from an empty
  slot), the notification flag is false, and a registered \<open>on_ble_disconnected\<close> stops
  the buzzer pattern.
\<close>

lemma disconnected_event_effects:
  "current_state (ble (bt_disconnected_event conn reason f)) = HAL_BLE_STATE_READY
   \<and> current_conn (ble (bt_disconnected_event conn reason f)) = None
   \<and> bt_calls (ble (bt_disconnected_event conn reason f))
       = bt_calls (ble f) @ (case current_conn (ble f) of Some c \<Rightarrow> [BT_CONN_UNREF c] | None \<Rightarrow> [])
   \<and> conn_unref_count (ble (bt_disconnected_event conn reason f))
       = conn_unref_count (ble f) + (if current_conn (ble f) = None then 0 else 1)
   \<and> \<not> notify_enabled (bas (bt_disconnected_event conn reason f))
   \<and> (cb_disconnected (user_callbacks (ble f)) = Some on_ble_disconnected \<longrightarrow>
        buzzer (app (bt_disconnected_event conn reason f))
          = snd (hal_buzzer_set_intermittent False 0 (buzzer (app f)))
        \<and> (initialized_buzzer (buzzer (app f)) \<longrightarrow>
             \<not> pattern_intermittent_active (buzzer (app (bt_disconnected_event conn reason f)))
             \<and> pattern_intermittent_work (buzzer (app (bt_disconnected_event conn reason f)))
                 = WORK_IDLE
             \<and> pwm_pulse_ns (buzzer (app (bt_disconnected_event conn reason f))) = 0))"
proof -
  have link:
    "current_state (ble (bt_disconnected_event conn reason f)) = HAL_BLE_STATE_READY"
    "current_conn (ble (bt_disconnected_event conn reason f)) = None"
    "bt_calls (ble (bt_disconnected_event conn reason f))
       = bt_calls (ble f) @ (case current_conn (ble f) of Some c \<Rightarrow> [BT_CONN_UNREF c] | None \<Rightarrow> [])"
    "conn_unref_count (ble (bt_disconnected_event conn reason f))
       = conn_unref_count (ble f) + (if current_conn (ble f) = None then 0 else 1)"
    by (simp_all add: disconnected_event_parts on_disconnected_ble conn_unref_count_def
        split: option.splits)
  have sub: "\<not> notify_enabled (bas (bt_disconnected_event conn reason f))"
    by (simp add: disconnected_event_parts disconnected_cb_def Let_def)
  have buz: "buzzer (app (bt_disconnected_event conn reason f))
          = snd (hal_buzzer_set_intermittent False 0 (buzzer (app f)))"
    if "cb_disconnected (user_callbacks (ble f)) = Some on_ble_disconnected"
    using that
    by (simp add: disconnected_event_parts on_disconnected_app on_ble_disconnected_def Let_def)
  have off: "\<not> pattern_intermittent_active (snd (hal_buzzer_set_intermittent False 0 (buzzer (app f))))
      \<and> pattern_intermittent_work (snd (hal_buzzer_set_intermittent False 0 (buzzer (app f))))
          = WORK_IDLE
      \<and> pwm_pulse_ns (snd (hal_buzzer_set_intermittent False 0 (buzzer (app f)))) = 0"
    if "initialized_buzzer (buzzer (app f))"
    using that by (simp add: hal_buzzer_set_intermittent_def stop_intermittent_result)
  from link sub buz off show ?thesis by simp
qed

text \<open>
  Every state of a run after start-up is wired and linked: the slot of the connectivity
  manager holds exactly the link that the stack has up.
\<close>

lemma started_wired:
  assumes "length name \<le> MAX_DEVICE_NAME_LEN"
  shows "wired_and_linked \<lparr>fw = firmware_started name, stack_link = None\<rparr>"
  using assms
  by (simp add: wired_and_linked_def firmware_started_def firmware_power_on_def app_power_on_def
      buzzer_after_init hal_ble_init_def ble_power_on_def bt_call_def prepare_adv_data_def
      hal_ble_start_advertising_def main_adv_params_def k_work_submit_def
      gatt_buzzer_service_init_def buzzer_callbacks_def buzzer_cb_power_on_def Let_def)

lemma set_intermittent_keeps_initialized:
  "initialized_buzzer (snd (hal_buzzer_set_intermittent active intensity b)) = initialized_buzzer b"
  by (simp add: hal_buzzer_set_intermittent_def stop_intermittent_result)

lemma adv_work_event_wired:
  assumes "user_callbacks (ble f) = ble_callbacks"
  shows "current_conn (ble (adv_work_event e f)) = current_conn (ble f)"
    and "user_callbacks (ble (adv_work_event e f)) = ble_callbacks"
    and "buzzer_cb (adv_work_event e f) = buzzer_cb f"
    and "buzzer (app (adv_work_event e f)) = buzzer (app f)"
  using assms
  by (simp_all add: adv_work_event_def adv_work_runs_def adv_work_handler_def bt_call_def
      ble_callbacks_def on_ble_adv_started_def Let_def case_prod_beta)

lemma connected_event_wired:
  assumes "user_callbacks (ble f) = ble_callbacks"
  shows "current_conn (ble (bt_connected_event conn 0 info f)) = Some conn"
    and "user_callbacks (ble (bt_connected_event conn 0 info f)) = ble_callbacks"
    and "buzzer_cb (bt_connected_event conn 0 info f) = buzzer_cb f"
    and "buzzer (app (bt_connected_event conn 0 info f)) = buzzer (app f)"
  using assms
  by (simp_all add: bt_connected_event_def on_connected_def bt_call_def ble_callbacks_def
      on_ble_connected_def Let_def case_prod_beta split: option.splits)

lemma disconnected_event_wired:
  assumes "user_callbacks (ble f) = ble_callbacks"
  shows "current_conn (ble (bt_disconnected_event conn reason f)) = None"
    and "user_callbacks (ble (bt_disconnected_event conn reason f)) = ble_callbacks"
    and "buzzer_cb (bt_disconnected_event conn reason f) = buzzer_cb f"
    and "buzzer (app (bt_disconnected_event conn reason f))
          = snd (hal_buzzer_set_intermittent False 0 (buzzer (app f)))"
  using assms
  by (simp_all add: bt_disconnected_event_def on_disconnected_def bt_call_def ble_callbacks_def
      on_ble_disconnected_def Let_def case_prod_beta split: option.splits)

lemma write_event_wired:
  assumes "buzzer_cb f = buzzer_callbacks"
  shows "ble (snd (gatt_write_event buf offset f)) = ble f"
    and "buzzer_cb (snd (gatt_write_event buf offset f)) = buzzer_cb f"
    and "initialized_buzzer (buzzer (app (snd (gatt_write_event buf offset f))))
          = initialized_buzzer (buzzer (app f))"
  using assms
  by (simp_all add: gatt_write_event_def write_buzzer_intermittent_def buzzer_callbacks_def
      on_buzzer_intermittent_write_def set_intermittent_keeps_initialized Let_def case_prod_beta)

lemma world_step_keeps_wired:
  assumes "wired_and_linked w"
  shows "wired_and_linked (world_step w e)"
proof (cases e)
  case (ADV_WORK_RUNS x)
  with assms show ?thesis by (simp add: wired_and_linked_def adv_work_event_wired)
next
  case (LINK_CONNECTED c i)
  with assms show ?thesis
    by (cases "stack_link w") (simp_all add: wired_and_linked_def connected_event_wired)
next
  case (LINK_CONNECT_FAILED c err)
  with assms show ?thesis
    by (simp add: wired_and_linked_def connected_event_error k_work_submit_def bt_call_def)
next
  case (LINK_DISCONNECTED r)
  with assms show ?thesis
    by (cases "stack_link w")
       (simp_all add: wired_and_linked_def disconnected_event_wired
          set_intermittent_keeps_initialized)
next
  case LINK_RECYCLED
  with assms show ?thesis
    by (simp add: wired_and_linked_def bt_recycled_event_def on_recycled_def k_work_submit_def
        bt_call_def)
next
  case (CLIENT_WRITE buf off)
  with assms show ?thesis by (simp add: wired_and_linked_def write_event_wired)
next
  case (CLIENT_CCC v)
  with assms show ?thesis by (simp add: wired_and_linked_def)
next
  case PATTERN_WORK_EXPIRES
  with assms show ?thesis
    by (simp add: wired_and_linked_def work_expires_keeps_initialized)
qed

lemma foldl_world_step_wired:
  "wired_and_linked w \<Longrightarrow> wired_and_linked (foldl world_step w events)"
  by (induction events arbitrary: w) (simp_all add: world_step_keeps_wired)

lemma firmware_run_wired:
  "length name \<le> MAX_DEVICE_NAME_LEN \<Longrightarrow> wired_and_linked (firmware_run name events)"
  unfolding firmware_run_def by (intro foldl_world_step_wired started_wired)

text \<open>
  C4. For every disconnect event, regardless of the prior state: in every state that
  the firmware reaches after the start-up of \<open>main\<close>, whenever the stack has a link up
  and so can deliver a disconnect event, that event leaves the connectivity manager
  Ready, releases the connection reference exactly once and empties the slot, makes the
  battery-notification flag false, and forces the buzzer pattern inactive:
  \<open>hal_buzzer_set_intermittent(false, 0)\<close> is invoked and succeeds, the pattern is inactive
  and the output is 0. The device name has at most 29 bytes, without which the start-up
  of \<open>main\<close> fails and no event follows.
\<close>

theorem disconnect_releases_link_and_alarm:
  assumes "length name \<le> MAX_DEVICE_NAME_LEN"
    and "stack_link (firmware_run name events) = Some conn"
  shows
   "world_step (firmware_run name events) (LINK_DISCONNECTED reason)
      = (firmware_run name events)
          \<lparr>fw := bt_disconnected_event conn reason (fw (firmware_run name events)),
           stack_link := None\<rparr>
    \<and> current_state (ble (bt_disconnected_event conn reason (fw (firmware_run name events))))
        = HAL_BLE_STATE_READY
    \<and> bt_calls (ble (bt_disconnected_event conn reason (fw (firmware_run name events))))
        = bt_calls (ble (fw (firmware_run name events))) @ [BT_CONN_UNREF conn]
    \<and> conn_unref_count (ble (bt_disconnected_event conn reason (fw (firmware_run name events))))
        = conn_unref_count (ble (fw (firmware_run name events))) + 1
    \<and> current_conn (ble (bt_disconnected_event conn reason (fw (firmware_run name events))))
        = None
    \<and> \<not> notify_enabled (bas (bt_disconnected_event conn reason (fw (firmware_run name events))))
    \<and> fst (hal_buzzer_set_intermittent False 0 (buzzer (app (fw (firmware_run name events)))))
        = HAL_BUZZER_SUCCESS
    \<and> buzzer (app (bt_disconnected_event conn reason (fw (firmware_run name events))))
        = snd (hal_buzzer_set_intermittent False 0 (buzzer (app (fw (firmware_run name events)))))
    \<and> \<not> pattern_intermittent_active
          (buzzer (app (bt_disconnected_event conn reason (fw (firmware_run name events)))))
    \<and> pwm_pulse_ns
          (buzzer (app (bt_disconnected_event conn reason (fw (firmware_run name events))))) = 0"
proof -
  define f where "f = fw (firmware_run name events)"
  have inv: "wired_and_linked (firmware_run name events)"
    using assms(1) by (rule firmware_run_wired)
  have held: "current_conn (ble f) = Some conn"
    using inv assms(2) by (simp add: wired_and_linked_def f_def)
  have cb: "cb_disconnected (user_callbacks (ble f)) = Some on_ble_disconnected"
    using inv by (simp add: wired_and_linked_def f_def ble_callbacks_def)
  have ini: "initialized_buzzer (buzzer (app f))"
    using inv by (simp add: wired_and_linked_def f_def)
  have ok: "fst (hal_buzzer_set_intermittent False 0 (buzzer (app f))) = HAL_BUZZER_SUCCESS"
    using ini by (simp add: hal_buzzer_set_intermittent_def)
  have off: "\<not> pattern_intermittent_active (snd (hal_buzzer_set_intermittent False 0 (buzzer (app f))))"
      "pwm_pulse_ns (snd (hal_buzzer_set_intermittent False 0 (buzzer (app f)))) = 0"
    using ini by (simp_all add: hal_buzzer_set_intermittent_def stop_intermittent_result)
  from disconnected_event_effects [of conn reason f] held cb ini assms(2) ok off
  show ?thesis by (simp add: f_def)
qed

lemma run_to_alarming:
  "firmware_run ''Amigo Perto''
     [ADV_WORK_RUNS 0, LINK_CONNECTED 1 None, CLIENT_WRITE [1] 0, CLIENT_CCC 1]
     = \<lparr>fw = firmware_alarming, stack_link = Some 1\<rparr>"
  by (simp add: firmware_run_def firmware_alarming_def firmware_connected_def
      firmware_advertising_def Let_def)

theorem disconnect_releases_link_and_alarm_witness:
  "length ''Amigo Perto'' \<le> MAX_DEVICE_NAME_LEN
   \<and> stack_link (firmware_run ''Amigo Perto''
         [ADV_WORK_RUNS 0, LINK_CONNECTED 1 None, CLIENT_WRITE [1] 0, CLIENT_CCC 1]) = Some 1
   \<and> current_state (ble firmware_alarming) = HAL_BLE_STATE_CONNECTED
   \<and> current_conn (ble firmware_alarming) = Some 1
   \<and> pattern_intermittent_active (buzzer (app firmware_alarming))
   \<and> notify_enabled (bas firmware_alarming)
   \<and> current_state (ble (bt_disconnected_event 1 19 firmware_alarming)) = HAL_BLE_STATE_READY
   \<and> current_conn (ble (bt_disconnected_event 1 19 firmware_alarming)) = None
   \<and> bt_calls (ble (bt_disconnected_event 1 19 firmware_alarming))
       = bt_calls (ble firmware_alarming) @ [BT_CONN_UNREF 1]
   \<and> conn_unref_count (ble (bt_disconnected_event 1 19 firmware_alarming)) = 1
   \<and> \<not> notify_enabled (bas (bt_disconnected_event 1 19 firmware_alarming))
   \<and> \<not> pattern_intermittent_active (buzzer (app (bt_disconnected_event 1 19 firmware_alarming)))
   \<and> pwm_pulse_ns (buzzer (app (bt_disconnected_event 1 19 firmware_alarming))) = 0"
proof -
  have len: "length ''Amigo Perto'' \<le> MAX_DEVICE_NAME_LEN" by simp
  have up: "stack_link (firmware_run ''Amigo Perto''
         [ADV_WORK_RUNS 0, LINK_CONNECTED 1 None, CLIENT_WRITE [1] 0, CLIENT_CCC 1]) = Some 1"
    unfolding run_to_alarming by simp
  from disconnect_releases_link_and_alarm [OF len up, of 19, unfolded run_to_alarming] len
  show ?thesis
    unfolding run_to_alarming
    by (simp add: alarming_fields hal_buzzer_set_intermittent_def stop_intermittent_result)
qed

section \<open>Connectivity manager: \<open>hal_ble_start_advertising\<close> and \<open>hal_ble_init\<close>\<close>

lemma adv_range_check:
  "(interval_min_ms p < ADV_INTERVAL_MIN_MS \<or> interval_min_ms p > ADV_INTERVAL_MAX_MS \<or>
    interval_max_ms p < ADV_INTERVAL_MIN_MS \<or> interval_max_ms p > ADV_INTERVAL_MAX_MS \<or>
    interval_min_ms p > interval_max_ms p) = (\<not> adv_config_valid p)"
  by (auto simp: adv_config_valid_def word_less_def word_le_def)

text \<open>
  C7 (as amended). On an initialised module, \<open>hal_ble_start_advertising\<close> checks the
  state before the configuration: while Connected it fails with \<open>HAL_BLE_ERROR_STATE\<close>
  and while Advertising it returns success, in both cases for every configuration
  (valid, out of range or absent) and without any change, so without queueing work.
  In Ready, a configuration outside \<open>20 \<le> interval_min \<le> interval_max \<le> 10240\<close> fails
  with \<open>HAL_BLE_ERROR_INVALID\<close> without any change; a configuration inside returns
  success at once, having only queued the advertising work (the state is still Ready),
  and the state becomes Advertising when the queued work runs and the radio accepts.
\<close>

theorem start_advertising_outcomes:
  assumes "initialized_ble b"
  shows
   "(current_state b = HAL_BLE_STATE_CONNECTED \<longrightarrow>
       hal_ble_start_advertising cfg b = (HAL_BLE_ERROR_STATE, b))
    \<and> (current_state b = HAL_BLE_STATE_ADVERTISING \<longrightarrow>
       hal_ble_start_advertising cfg b = (HAL_BLE_SUCCESS, b))
    \<and> (current_state b = HAL_BLE_STATE_READY \<and> \<not> adv_config_valid p \<longrightarrow>
       hal_ble_start_advertising (Some p) b = (HAL_BLE_ERROR_INVALID, b))
    \<and> (current_state b = HAL_BLE_STATE_READY \<and> adv_config_valid p \<longrightarrow>
       fst (hal_ble_start_advertising (Some p) b) = HAL_BLE_SUCCESS
       \<and> adv_work (snd (hal_ble_start_advertising (Some p) b))
       \<and> bt_calls (snd (hal_ble_start_advertising (Some p) b)) = bt_calls b @ [K_WORK_SUBMIT]
       \<and> current_state (snd (hal_ble_start_advertising (Some p) b)) = HAL_BLE_STATE_READY
       \<and> current_state (fst (adv_work_runs 0 (snd (hal_ble_start_advertising (Some p) b)) a))
           = HAL_BLE_STATE_ADVERTISING)"
proof -
  have connected: "hal_ble_start_advertising cfg b = (HAL_BLE_ERROR_STATE, b)"
    if "current_state b = HAL_BLE_STATE_CONNECTED"
    using assms that by (simp add: hal_ble_start_advertising_def)
  have advertising: "hal_ble_start_advertising cfg b = (HAL_BLE_SUCCESS, b)"
    if "current_state b = HAL_BLE_STATE_ADVERTISING"
    using assms that by (simp add: hal_ble_start_advertising_def)
  have invalid: "hal_ble_start_advertising (Some p) b = (HAL_BLE_ERROR_INVALID, b)"
    if "current_state b = HAL_BLE_STATE_READY" "\<not> adv_config_valid p"
    using assms that by (simp add: hal_ble_start_advertising_def adv_range_check)
  have valid: "fst (hal_ble_start_advertising (Some p) b) = HAL_BLE_SUCCESS
       \<and> adv_work (snd (hal_ble_start_advertising (Some p) b))
       \<and> bt_calls (snd (hal_ble_start_advertising (Some p) b)) = bt_calls b @ [K_WORK_SUBMIT]
       \<and> current_state (snd (hal_ble_start_advertising (Some p) b)) = HAL_BLE_STATE_READY
       \<and> current_state (fst (adv_work_runs 0 (snd (hal_ble_start_advertising (Some p) b)) a))
           = HAL_BLE_STATE_ADVERTISING"
    if "current_state b = HAL_BLE_STATE_READY" "adv_config_valid p"
    using assms that
    by (cases "cb_adv_started (user_callbacks b)")
       (simp_all add: hal_ble_start_advertising_def adv_range_check Let_def k_work_submit_def
          bt_call_def adv_work_runs_def adv_work_handler_def)
  from connected advertising invalid valid show ?thesis by blast
qed

theorem start_advertising_outcomes_witness:
  "initialized_ble (snd (hal_ble_init (Some ''Amigo Perto'') (Some ble_callbacks) 0 ble_power_on))
   \<and> adv_config_valid main_adv_params
   \<and> fst (hal_ble_start_advertising (Some main_adv_params)
        (snd (hal_ble_init (Some ''Amigo Perto'') (Some ble_callbacks) 0 ble_power_on)))
       = HAL_BLE_SUCCESS
   \<and> current_state (snd (hal_ble_start_advertising (Some main_adv_params)
        (snd (hal_ble_init (Some ''Amigo Perto'') (Some ble_callbacks) 0 ble_power_on))))
       = HAL_BLE_STATE_READY
   \<and> fst (hal_ble_start_advertising
        (Some \<lparr>interval_min_ms = 10, interval_max_ms = 10, connectable = True, use_identity = True\<rparr>)
        (snd (hal_ble_init (Some ''Amigo Perto'') (Some ble_callbacks) 0 ble_power_on)))
       = HAL_BLE_ERROR_INVALID
   \<and> current_state (ble firmware_connected) = HAL_BLE_STATE_CONNECTED
   \<and> hal_ble_start_advertising (Some main_adv_params) (ble firmware_connected)
       = (HAL_BLE_ERROR_STATE, ble firmware_connected)
   \<and> current_state (ble firmware_advertising) = HAL_BLE_STATE_ADVERTISING
   \<and> hal_ble_start_advertising (Some main_adv_params) (ble firmware_advertising)
       = (HAL_BLE_SUCCESS, ble firmware_advertising)"
  using
    start_advertising_outcomes [OF ready_fields(1), of "Some main_adv_params" main_adv_params app_power_on]
    start_advertising_outcomes [OF ready_fields(1), of None
      "\<lparr>interval_min_ms = 10, interval_max_ms = 10, connectable = True, use_identity = True\<rparr>"
      app_power_on]
    start_advertising_outcomes [OF connected_fields(1), of "Some main_adv_params" main_adv_params app_power_on]
    start_advertising_outcomes [OF advertising_fields(1), of "Some main_adv_params" main_adv_params app_power_on]
  by (simp add: ready_fields connected_fields advertising_fields main_adv_params_valid
      short_interval_invalid)

text \<open>
  C7 as the specification words it has every out-of-range configuration fail with
  InvalidArgument. While the module is Advertising the call returns success before it
  looks at the configuration.
\<close>

theorem start_advertising_precedence_counterexample:
  "current_state (ble firmware_advertising) = HAL_BLE_STATE_ADVERTISING
   \<and> \<not> adv_config_valid
        \<lparr>interval_min_ms = 10, interval_max_ms = 10, connectable = True, use_identity = True\<rparr>
   \<and> fst (hal_ble_start_advertising
        (Some \<lparr>interval_min_ms = 10, interval_max_ms = 10, connectable = True, use_identity = True\<rparr>)
        (ble firmware_advertising)) = HAL_BLE_SUCCESS
   \<and> fst (hal_ble_start_advertising
        (Some \<lparr>interval_min_ms = 10, interval_max_ms = 10, connectable = True, use_identity = True\<rparr>)
        (ble firmware_advertising)) \<noteq> HAL_BLE_ERROR_INVALID"
  by (simp add: hal_ble_start_advertising_def advertising_fields short_interval_invalid)

text \<open>
  C8 (as amended). \<open>hal_ble_init\<close> on an uninitialised module fails with
  \<open>HAL_BLE_ERROR_INVALID\<close>, changing nothing, when the name is NULL or longer than 29
  bytes; an empty name is accepted. With an accepted name it fails with
  \<open>HAL_BLE_ERROR_INIT\<close> when the link layer cannot be enabled, and the module stays
  uninitialised in its previous state; otherwise it succeeds, the module is initialised
  and Ready, and the name is stored. On an initialised module the call changes nothing
  and returns success.
\<close>

theorem init_outcomes:
  "(initialized_ble b \<longrightarrow> hal_ble_init name cbs err b = (HAL_BLE_SUCCESS, b))
   \<and> (\<not> initialized_ble b \<longrightarrow> hal_ble_init None cbs err b = (HAL_BLE_ERROR_INVALID, b))
   \<and> (\<not> initialized_ble b \<and> length n > 29 \<longrightarrow>
        hal_ble_init (Some n) cbs err b = (HAL_BLE_ERROR_INVALID, b))
   \<and> (\<not> initialized_ble b \<and> length n \<le> 29 \<and> err \<noteq> 0 \<longrightarrow>
        fst (hal_ble_init (Some n) cbs err b) = HAL_BLE_ERROR_INIT
        \<and> \<not> initialized_ble (snd (hal_ble_init (Some n) cbs err b))
        \<and> current_state (snd (hal_ble_init (Some n) cbs err b)) = current_state b)
   \<and> (\<not> initialized_ble b \<and> length n \<le> 29 \<and> err = 0 \<longrightarrow>
        fst (hal_ble_init (Some n) cbs err b) = HAL_BLE_SUCCESS
        \<and> initialized_ble (snd (hal_ble_init (Some n) cbs err b))
        \<and> current_state (snd (hal_ble_init (Some n) cbs err b)) = HAL_BLE_STATE_READY
        \<and> device_name (snd (hal_ble_init (Some n) cbs err b)) = n)"
proof -
  have again: "hal_ble_init name cbs err b = (HAL_BLE_SUCCESS, b)" if "initialized_ble b"
    using that by (simp add: hal_ble_init_def)
  have null: "hal_ble_init None cbs err b = (HAL_BLE_ERROR_INVALID, b)" if "\<not> initialized_ble b"
    using that by (simp add: hal_ble_init_def)
  have long: "hal_ble_init (Some n) cbs err b = (HAL_BLE_ERROR_INVALID, b)"
    if "\<not> initialized_ble b" "length n > 29"
    using that by (simp add: hal_ble_init_def)
  have link: "fst (hal_ble_init (Some n) cbs err b) = HAL_BLE_ERROR_INIT
        \<and> \<not> initialized_ble (snd (hal_ble_init (Some n) cbs err b))
        \<and> current_state (snd (hal_ble_init (Some n) cbs err b)) = current_state b"
    if "\<not> initialized_ble b" "length n \<le> 29" "err \<noteq> 0"
    using that by (cases cbs) (simp_all add: hal_ble_init_def bt_call_def Let_def)
  have ok: "fst (hal_ble_init (Some n) cbs err b) = HAL_BLE_SUCCESS
        \<and> initialized_ble (snd (hal_ble_init (Some n) cbs err b))
        \<and> current_state (snd (hal_ble_init (Some n) cbs err b)) = HAL_BLE_STATE_READY
        \<and> device_name (snd (hal_ble_init (Some n) cbs err b)) = n"
    if "\<not> initialized_ble b" "length n \<le> 29" "err = 0"
    using that
    by (cases cbs) (simp_all add: hal_ble_init_def bt_call_def prepare_adv_data_def Let_def)
  from again null long link ok show ?thesis by blast
qed

theorem init_outcomes_witness:
  "\<not> initialized_ble ble_power_on
   \<and> current_state ble_power_on = HAL_BLE_STATE_IDLE
   \<and> length ''Amigo Perto'' \<le> 29
   \<and> fst (hal_ble_init (Some ''Amigo Perto'') (Some ble_callbacks) 0 ble_power_on) = HAL_BLE_SUCCESS
   \<and> current_state (snd (hal_ble_init (Some ''Amigo Perto'') (Some ble_callbacks) 0 ble_power_on))
       = HAL_BLE_STATE_READY
   \<and> fst (hal_ble_init (Some ''Amigo Perto'') (Some ble_callbacks) (- 5) ble_power_on)
       = HAL_BLE_ERROR_INIT
   \<and> hal_ble_init (Some ''A device name of 30 characters'') (Some ble_callbacks) 0 ble_power_on
       = (HAL_BLE_ERROR_INVALID, ble_power_on)
   \<and> hal_ble_init None (Some ble_callbacks) 0 ble_power_on = (HAL_BLE_ERROR_INVALID, ble_power_on)
   \<and> initialized_ble (ble firmware_advertising)
   \<and> hal_ble_init (Some ''Other'') None 0 (ble firmware_advertising)
       = (HAL_BLE_SUCCESS, ble firmware_advertising)"
proof -
  have p: "\<not> initialized_ble ble_power_on" "current_state ble_power_on = HAL_BLE_STATE_IDLE"
    by (simp_all add: ble_power_on_def)
  have i: "initialized_ble (ble firmware_advertising)" by (rule advertising_fields)
  from p i
    init_outcomes [of ble_power_on "Some ''Amigo Perto''" "Some ble_callbacks" 0 "''Amigo Perto''"]
    init_outcomes [of ble_power_on None "Some ble_callbacks" "- 5" "''Amigo Perto''"]
    init_outcomes [of ble_power_on None "Some ble_callbacks" 0 "''A device name of 30 characters''"]
    init_outcomes [of "ble firmware_advertising" "Some ''Other''" None 0 "''Other''"]
  show ?thesis by simp
qed

text \<open>
  C8 as the specification words it has the empty name rejected. \<open>hal_ble_init\<close> rejects
  only NULL and names longer than 29 bytes; with the empty name it succeeds
  (\<open>prepare_adv_data\<close> then leaves the name out of the advertising data).
\<close>

theorem init_empty_name_counterexample:
  "fst (hal_ble_init (Some []) (Some ble_callbacks) 0 ble_power_on) = HAL_BLE_SUCCESS
   \<and> fst (hal_ble_init (Some []) (Some ble_callbacks) 0 ble_power_on) \<noteq> HAL_BLE_ERROR_INVALID
   \<and> initialized_ble (snd (hal_ble_init (Some []) (Some ble_callbacks) 0 ble_power_on))
   \<and> current_state (snd (hal_ble_init (Some []) (Some ble_callbacks) 0 ble_power_on))
       = HAL_BLE_STATE_READY"
  by (simp add: hal_ble_init_def ble_power_on_def bt_call_def prepare_adv_data_def Let_def)

end
